theory Spec2Isabelle
  imports Main "HOL-Library.Word"
begin

section \<open>JavaScript values\<close>

text \<open>
  The library is untyped JavaScript: every argument of a builder method may be any value,
  and the methods test it with \<^verbatim>\<open>typeof\<close>, \<^verbatim>\<open>instanceof stream.Stream\<close>,
  \<^verbatim>\<open>Buffer.isBuffer\<close> and truthiness. The values the code can tell apart are a datatype.
  Numbers are integers here (no claim depends on fractions). A function and a stream are
  opaque and carry only an identity.
\<close>

type_synonym bytes = "8 word list"

datatype jsval =
    JUndefined
  | JNull
  | JBool bool
  | JNum int
  | JStr string
  | JArr "jsval list"
  | JObj "(string \<times> jsval) list"
  | JFun nat
  | JStream nat
  | JBuffer bytes

text \<open>\<^verbatim>\<open>typeof v\<close>: \<^verbatim>\<open>null\<close>, arrays, plain objects, streams and buffers are all "object".\<close>

fun typeof :: "jsval \<Rightarrow> string" where
  "typeof JUndefined = ''undefined''"
| "typeof JNull = ''object''"
| "typeof (JBool b) = ''boolean''"
| "typeof (JNum n) = ''number''"
| "typeof (JStr s) = ''string''"
| "typeof (JArr vs) = ''object''"
| "typeof (JObj ps) = ''object''"
| "typeof (JFun f) = ''function''"
| "typeof (JStream h) = ''object''"
| "typeof (JBuffer bs) = ''object''"

text \<open>Truthiness, as \<^verbatim>\<open>if (v)\<close> and \<^verbatim>\<open>a && b\<close> test it.\<close>

fun truthy :: "jsval \<Rightarrow> bool" where
  "truthy JUndefined = False"
| "truthy JNull = False"
| "truthy (JBool b) = b"
| "truthy (JNum n) = (n \<noteq> 0)"
| "truthy (JStr s) = (s \<noteq> [])"
| "truthy (JArr vs) = True"
| "truthy (JObj ps) = True"
| "truthy (JFun f) = True"
| "truthy (JStream h) = True"
| "truthy (JBuffer bs) = True"

text \<open>\<^verbatim>\<open>v instanceof stream.Stream\<close> and \<^verbatim>\<open>Buffer.isBuffer(v)\<close>.\<close>

fun instanceof_Stream :: "jsval \<Rightarrow> bool" where
  "instanceof_Stream (JStream h) = True"
| "instanceof_Stream v = False"

fun isBuffer :: "jsval \<Rightarrow> bool" where
  "isBuffer (JBuffer bs) = True"
| "isBuffer v = False"

text \<open>
  Properties of a plain object are an association list in insertion order. Assigning
  \<^verbatim>\<open>obj.k = v\<close> overwrites the entry of \<open>k\<close> in place or appends a new one; reading a
  missing property gives \<^verbatim>\<open>undefined\<close>.
\<close>

fun set_prop :: "string \<Rightarrow> jsval \<Rightarrow> (string \<times> jsval) list \<Rightarrow> (string \<times> jsval) list" where
  "set_prop k v [] = [(k, v)]"
| "set_prop k v ((k', v') # ps) =
     (if k' = k then (k, v) # ps else (k', v') # set_prop k v ps)"

definition get_prop :: "string \<Rightarrow> (string \<times> jsval) list \<Rightarrow> jsval" where
  "get_prop k ps = (case map_of ps k of None \<Rightarrow> JUndefined | Some v \<Rightarrow> v)"

text \<open>
  Exceptions. \<open>Error v\<close> is the object built by \<^verbatim>\<open>new Error(v)\<close>: its message is the
  string form of \<open>v\<close>, which is \<open>v\<close> itself when \<open>v\<close> is a string. \<open>TypeError\<close> is what
  the runtime raises on calling a non-function or reading a property of \<^verbatim>\<open>null\<close>.
  \<open>Failure\<close> stands for an error object that comes from outside (network, file system).
\<close>

datatype jserror = Error jsval | TypeError string | Failure string

text \<open>
  \<^verbatim>\<open>v.k\<close>. \<open>read_prop\<close> is the read on a value that is neither \<^verbatim>\<open>null\<close> nor
  \<^verbatim>\<open>undefined\<close>: the property of a plain object, and \<^verbatim>\<open>undefined\<close> for the keys the
  code reads (\<^verbatim>\<open>success\<close>, \<^verbatim>\<open>message\<close>) on every other kind of value. \<open>member\<close> is
  the read on an arbitrary value: it raises on \<^verbatim>\<open>null\<close> and \<^verbatim>\<open>undefined\<close>.
\<close>

fun read_prop :: "jsval \<Rightarrow> string \<Rightarrow> jsval" where
  "read_prop (JObj ps) k = get_prop k ps"
| "read_prop v k = JUndefined"

fun member :: "jsval \<Rightarrow> string \<Rightarrow> jserror + jsval" where
  "member JUndefined k = Inl (TypeError ''Cannot read properties of undefined'')"
| "member JNull k = Inl (TypeError ''Cannot read properties of null'')"
| "member v k = Inr (read_prop v k)"

section \<open>The options record and the builder (src/lib/index.js)\<close>

text \<open>
  \<^verbatim>\<open>this.options\<close>. A flag that the code only ever sets to \<^verbatim>\<open>true\<close> is a \<open>bool\<close>
  (\<open>False\<close> is "never set"); \<^verbatim>\<open>errorMessage\<close> and \<^verbatim>\<open>proxy\<close> are only ever set
  to strings, so they are options. The fields \<^verbatim>\<open>proxy\<close>, \<^verbatim>\<open>toJSON\<close>, \<^verbatim>\<open>toFile\<close>
  and \<^verbatim>\<open>toBuffer\<close> carry the suffix \<open>_opt\<close> because the methods of the same names follow,
  and \<^verbatim>\<open>file\<close> because the bare word is reserved.
\<close>

record options =
  key :: string
  request :: "(string \<times> jsval) list"
  errorMessage :: "string option"
  proxy_opt :: "string option"
  withUpload :: bool
  withFetch :: bool
  file_opt :: jsval
  toJSON_opt :: bool
  toFile_opt :: bool
  toBuffer_opt :: bool
  outputFile :: jsval

text \<open>
  Truthiness of an optional string field, as \<^verbatim>\<open>if (options.errorMessage)\<close> and
  \<^verbatim>\<open>if (options.proxy)\<close> test it: unset and the empty string are both falsy.
\<close>

fun string_set :: "string option \<Rightarrow> bool" where
  "string_set None = False"
| "string_set (Some m) = (m \<noteq> [])"

text \<open>
  The constructor \<^verbatim>\<open>Optidash(key)\<close> (index.js, lines 8 to 21): it raises unless the key
  is a string, and sets \<^verbatim>\<open>this.options = { key: key, request: {} }\<close>.
\<close>

definition new_options :: "string \<Rightarrow> options" where
  "new_options k =
     \<lparr> key = k, request = [], errorMessage = None, proxy_opt = None,
       withUpload = False, withFetch = False, file_opt = JUndefined,
       toJSON_opt = False, toFile_opt = False, toBuffer_opt = False,
       outputFile = JUndefined \<rparr>"

definition Optidash :: "jsval \<Rightarrow> jserror + options" where
  "Optidash k =
     (case k of
        JStr s \<Rightarrow> Inr (new_options s)
      | _ \<Rightarrow> Inl (Error (JStr ''Optidash constructor requires a valid API Key'')))"

subsection \<open>Input selectors and proxy (lines 51 to 104)\<close>

definition msg_upload_arg :: string where
  "msg_upload_arg = ''Optidash upload(string|stream) method requires a valid file path or a stream passed as an argument''"

definition msg_one_input :: string where
  "msg_one_input = ''Optidash only accepts one file input method per call: upload(string|stream) or fetch(string)''"

definition msg_fetch_arg :: string where
  "msg_fetch_arg = ''Optidash fetch(string) method requires a valid file URL passed as an argument''"

definition upload :: "jsval \<Rightarrow> options \<Rightarrow> options" where
  "upload f b =
     (let b1 = (if typeof f \<noteq> ''string'' \<and> \<not> instanceof_Stream f
                then b\<lparr>errorMessage := Some msg_upload_arg\<rparr> else b);
          b2 = (if withFetch b1 then b1\<lparr>errorMessage := Some msg_one_input\<rparr> else b1)
      in b2\<lparr>file_opt := f, withUpload := True\<rparr>)"

definition fetch :: "jsval \<Rightarrow> options \<Rightarrow> options" where
  "fetch url b =
     (let b1 = (if typeof url = ''undefined''
                then b\<lparr>errorMessage := Some msg_fetch_arg\<rparr> else b);
          b2 = (if withUpload b1 then b1\<lparr>errorMessage := Some msg_one_input\<rparr> else b1)
      in b2\<lparr>request := set_prop ''url'' url (request b2), withFetch := True\<rparr>)"

definition proxy :: "jsval \<Rightarrow> options \<Rightarrow> options" where
  "proxy p b = (case p of JStr s \<Rightarrow> b\<lparr>proxy_opt := Some s\<rparr> | _ \<Rightarrow> b)"

subsection \<open>Operation setters (lines 114 to 360)\<close>

text \<open>
  The sixteen setters are sixteen copies of one body,
  \<^verbatim>\<open>if (typeof data === "object") { this.options.request.NAME = data; } return this;\<close>
  with only the property name changing.
\<close>

definition optimize :: "jsval \<Rightarrow> options \<Rightarrow> options" where
  "optimize data b =
     (if typeof data = ''object'' then b\<lparr>request := set_prop ''optimize'' data (request b)\<rparr> else b)"

definition flip :: "jsval \<Rightarrow> options \<Rightarrow> options" where
  "flip data b =
     (if typeof data = ''object'' then b\<lparr>request := set_prop ''flip'' data (request b)\<rparr> else b)"

definition resize :: "jsval \<Rightarrow> options \<Rightarrow> options" where
  "resize data b =
     (if typeof data = ''object'' then b\<lparr>request := set_prop ''resize'' data (request b)\<rparr> else b)"

definition scale :: "jsval \<Rightarrow> options \<Rightarrow> options" where
  "scale data b =
     (if typeof data = ''object'' then b\<lparr>request := set_prop ''scale'' data (request b)\<rparr> else b)"

definition crop :: "jsval \<Rightarrow> options \<Rightarrow> options" where
  "crop data b =
     (if typeof data = ''object'' then b\<lparr>request := set_prop ''crop'' data (request b)\<rparr> else b)"

definition watermark :: "jsval \<Rightarrow> options \<Rightarrow> options" where
  "watermark data b =
     (if typeof data = ''object'' then b\<lparr>request := set_prop ''watermark'' data (request b)\<rparr> else b)"

definition mask :: "jsval \<Rightarrow> options \<Rightarrow> options" where
  "mask data b =
     (if typeof data = ''object'' then b\<lparr>request := set_prop ''mask'' data (request b)\<rparr> else b)"

definition filter_op :: "jsval \<Rightarrow> options \<Rightarrow> options" where
  "filter_op data b =
     (if typeof data = ''object'' then b\<lparr>request := set_prop ''filter'' data (request b)\<rparr> else b)"

definition adjust :: "jsval \<Rightarrow> options \<Rightarrow> options" where
  "adjust data b =
     (if typeof data = ''object'' then b\<lparr>request := set_prop ''adjust'' data (request b)\<rparr> else b)"

definition auto_op :: "jsval \<Rightarrow> options \<Rightarrow> options" where
  "auto_op data b =
     (if typeof data = ''object'' then b\<lparr>request := set_prop ''auto'' data (request b)\<rparr> else b)"

definition border :: "jsval \<Rightarrow> options \<Rightarrow> options" where
  "border data b =
     (if typeof data = ''object'' then b\<lparr>request := set_prop ''border'' data (request b)\<rparr> else b)"

definition padding :: "jsval \<Rightarrow> options \<Rightarrow> options" where
  "padding data b =
     (if typeof data = ''object'' then b\<lparr>request := set_prop ''padding'' data (request b)\<rparr> else b)"

definition store :: "jsval \<Rightarrow> options \<Rightarrow> options" where
  "store data b =
     (if typeof data = ''object'' then b\<lparr>request := set_prop ''store'' data (request b)\<rparr> else b)"

definition output_op :: "jsval \<Rightarrow> options \<Rightarrow> options" where
  "output_op data b =
     (if typeof data = ''object'' then b\<lparr>request := set_prop ''output'' data (request b)\<rparr> else b)"

definition webhook :: "jsval \<Rightarrow> options \<Rightarrow> options" where
  "webhook data b =
     (if typeof data = ''object'' then b\<lparr>request := set_prop ''webhook'' data (request b)\<rparr> else b)"

definition cdn :: "jsval \<Rightarrow> options \<Rightarrow> options" where
  "cdn data b =
     (if typeof data = ''object'' then b\<lparr>request := set_prop ''cdn'' data (request b)\<rparr> else b)"

text \<open>The sixteen setters, each with the property it writes.\<close>

definition setters :: "(string \<times> (jsval \<Rightarrow> options \<Rightarrow> options)) list" where
  "setters =
     [(''optimize'', optimize), (''flip'', flip), (''resize'', resize), (''scale'', scale),
      (''crop'', crop), (''watermark'', watermark), (''mask'', mask), (''filter'', filter_op),
      (''adjust'', adjust), (''auto'', auto_op), (''border'', border), (''padding'', padding),
      (''store'', store), (''output'', output_op), (''webhook'', webhook), (''cdn'', cdn)]"


subsection \<open>Chains of builder calls\<close>

text \<open>
  Every method above returns \<^verbatim>\<open>this\<close>, so a builder is what a chain of calls leaves in
  \<^verbatim>\<open>this.options\<close>, starting from the constructor's record.
\<close>

datatype call =
    Upload jsval | Fetch jsval | Proxy jsval
  | Optimize jsval | Flip jsval | Resize jsval | Scale jsval | Crop jsval | Watermark jsval
  | Mask jsval | Filter jsval | Adjust jsval | Auto jsval | Border jsval | Padding jsval
  | Store jsval | Output jsval | Webhook jsval | Cdn jsval

fun apply_call :: "call \<Rightarrow> options \<Rightarrow> options" where
  "apply_call (Upload v) b = upload v b"
| "apply_call (Fetch v) b = fetch v b"
| "apply_call (Proxy v) b = proxy v b"
| "apply_call (Optimize v) b = optimize v b"
| "apply_call (Flip v) b = flip v b"
| "apply_call (Resize v) b = resize v b"
| "apply_call (Scale v) b = scale v b"
| "apply_call (Crop v) b = crop v b"
| "apply_call (Watermark v) b = watermark v b"
| "apply_call (Mask v) b = mask v b"
| "apply_call (Filter v) b = filter_op v b"
| "apply_call (Adjust v) b = adjust v b"
| "apply_call (Auto v) b = auto_op v b"
| "apply_call (Border v) b = border v b"
| "apply_call (Padding v) b = padding v b"
| "apply_call (Store v) b = store v b"
| "apply_call (Output v) b = output_op v b"
| "apply_call (Webhook v) b = webhook v b"
| "apply_call (Cdn v) b = cdn v b"

definition chain :: "call list \<Rightarrow> options \<Rightarrow> options" where
  "chain cs b = foldl (\<lambda>b c. apply_call c b) b cs"

fun is_Upload :: "call \<Rightarrow> bool" where
  "is_Upload (Upload v) = True"
| "is_Upload c = False"

fun is_Fetch :: "call \<Rightarrow> bool" where
  "is_Fetch (Fetch v) = True"
| "is_Fetch c = False"

section \<open>The request dispatcher (src/unnamed/part_001, required as \<^verbatim>\<open>./client\<close>)\<close>

subsection \<open>The world outside\<close>

text \<open>
  What \<^verbatim>\<open>sendRequest\<close> hands to the \<^verbatim>\<open>request\<close> library (the fields of \<^verbatim>\<open>reqOptions\<close>,
  each with the prefix \<open>req_\<close>). The \<^verbatim>\<open>file\<close> part of a
  multipart form is the caller's stream, a plain object holding a buffer and a file name, or
  a read stream opened on a path.
\<close>

datatype filepart = PartStream jsval | PartValue jsval jsval | PartFile jsval

record reqOptions =
  req_json :: bool
  req_strictSSL :: bool
  req_auth_user :: string
  req_auth_pass :: string
  req_encoding_null :: bool
  req_headers :: "(string \<times> jsval) list"
  req_proxy :: "string option"
  req_url :: string
  req_formData :: "(filepart \<times> (string \<times> jsval) list) option"
  req_body :: "(string \<times> jsval) list option"

text \<open>The actions on the network and the file system, in the order the code performs them.\<close>

datatype effect =
    HttpPost reqOptions
  | CreateReadStream jsval
  | CreateWriteStream jsval
  | Pause
  | Pipe
  | Resume

text \<open>
  What the code cannot decide by itself is a parameter: \<^verbatim>\<open>JSON.parse\<close> (\<open>None\<close> when it
  raises a syntax error), whether \<^verbatim>\<open>request.post\<close> raises synchronously, and the bytes that
  \<^verbatim>\<open>crypto.randomBytes\<close> returns.
\<close>

record env =
  JSON_parse :: "string \<Rightarrow> jsval option"
  post_throws :: "jserror option"
  randomBytes :: "nat \<Rightarrow> bytes"

text \<open>
  The only method of a buffer that the model knows is \<^verbatim>\<open>toString("hex")\<close>; a call of any
  other name finds \<^verbatim>\<open>undefined\<close> and raises.
\<close>

definition hex_digit :: "nat \<Rightarrow> char" where
  "hex_digit n = ''0123456789abcdef'' ! (n mod 16)"

definition hex :: "bytes \<Rightarrow> string" where
  "hex bs = concat (map (\<lambda>w. [hex_digit (unat w div 16), hex_digit (unat w mod 16)]) bs)"

definition Buffer_call :: "bytes \<Rightarrow> string \<Rightarrow> jsval \<Rightarrow> jserror + jsval" where
  "Buffer_call bs method arg =
     (if method = ''toString'' then Inr (JStr (hex bs))
      else Inl (TypeError (method @ '' is not a function'')))"

text \<open>
  \<^verbatim>\<open>fs.createReadStream\<close> and \<^verbatim>\<open>fs.createWriteStream\<close> check their argument on the spot:
  a path is a string or a buffer and holds no null byte. Anything else raises a
  \<^verbatim>\<open>TypeError\<close> synchronously; a path that merely does not exist is accepted here and fails
  later, with an \<^verbatim>\<open>error\<close> event of the stream.
\<close>

fun valid_path :: "jsval \<Rightarrow> bool" where
  "valid_path (JStr s) = (CHR 0x00 \<notin> set s)"
| "valid_path (JBuffer bs) = (0 \<notin> set bs)"
| "valid_path v = False"

fun path_error :: "jsval \<Rightarrow> jserror" where
  "path_error (JStr s) = TypeError ''The argument path must be a string or a buffer without null bytes''"
| "path_error (JBuffer bs) = TypeError ''The argument path must be a string or a buffer without null bytes''"
| "path_error v = TypeError ''The path argument must be of type string or an instance of Buffer''"

subsection \<open>The state of one dispatch\<close>

text \<open>
  One call of the callback: \<^verbatim>\<open>cb(err, meta, buff)\<close>, with \<open>None\<close> for a \<^verbatim>\<open>null\<close> error and
  \<^verbatim>\<open>undefined\<close> for an argument that the call site leaves out.
\<close>

datatype cbcall = Cb "jserror option" jsval jsval

text \<open>
  \<open>called\<close> is \<^verbatim>\<open>cb.called\<close> of the \<^verbatim>\<open>once\<close> wrapper; \<open>calls\<close> lists the invocations of
  the function that was passed to \<^verbatim>\<open>sendRequest\<close>, oldest first; \<open>raised\<close> is the first
  exception that left \<^verbatim>\<open>sendRequest\<close> or one of its listeners uncaught. The remaining
  fields are the listeners registered so far: on the upload source, the completion callback
  of \<^verbatim>\<open>request.post\<close>, the \<^verbatim>\<open>error\<close> and \<^verbatim>\<open>response\<close> listeners of the request, the
  listeners on a destination stream (each closes over its \<^verbatim>\<open>meta\<close>), and the listeners on
  a response (each closes over its \<^verbatim>\<open>meta\<close> and its array \<^verbatim>\<open>buff\<close>). Were a second
  response to arrive, its listeners would be added to those of the first.

  Events are still delivered after an exception has been recorded; a process that dies of
  the exception sees a prefix of them.
\<close>

record dstate =
  called :: bool
  calls :: "cbcall list"
  raised :: "jserror option"
  effects :: "effect list"
  file_l :: bool
  post_l :: bool
  req_l :: bool
  ws_l :: "jsval list"
  res_l :: "(jsval \<times> bytes list) list"

definition initial :: dstate where
  "initial = \<lparr> called = False, calls = [], raised = None, effects = [], file_l = False,
               post_l = False, req_l = False, ws_l = [], res_l = [] \<rparr>"

definition raise :: "jserror \<Rightarrow> dstate \<Rightarrow> dstate" where
  "raise e s = (case raised s of None \<Rightarrow> s\<lparr>raised := Some e\<rparr> | Some e' \<Rightarrow> s)"

text \<open>
  The callback is a parameter: \<open>cb args\<close> is \<open>None\<close> when the function returns and
  \<open>Some e\<close> when calling it raises \<open>e\<close>. \<open>invoke\<close> is a plain call \<^verbatim>\<open>cb(...)\<close>,
  \<open>once\<close> a call through the wrapper of the \<^verbatim>\<open>once\<close> package, which sets \<^verbatim>\<open>called\<close>
  and then calls the function, and does nothing when \<^verbatim>\<open>called\<close> is already set.
\<close>

definition invoke :: "(cbcall \<Rightarrow> jserror option) \<Rightarrow> cbcall \<Rightarrow> dstate \<Rightarrow> dstate" where
  "invoke cb args s =
     (let s' = s\<lparr>calls := calls s @ [args]\<rparr>
      in case cb args of None \<Rightarrow> s' | Some e \<Rightarrow> raise e s')"

definition once :: "(cbcall \<Rightarrow> jserror option) \<Rightarrow> cbcall \<Rightarrow> dstate \<Rightarrow> dstate" where
  "once cb args s = (if called s then s else invoke cb args (s\<lparr>called := True\<rparr>))"


subsection \<open>sendRequest: the synchronous part (lines 26 to 161)\<close>

text \<open>Lines 31 to 68: the options of the HTTP request that do not depend on the transport.\<close>

definition base_reqOptions :: "options \<Rightarrow> reqOptions" where
  "base_reqOptions opts =
     \<lparr> req_json = True, req_strictSSL = False, req_auth_user = key opts, req_auth_pass = [],
       req_encoding_null = toBuffer_opt opts,
       req_headers = (if toFile_opt opts \<or> toBuffer_opt opts
                  then [(''X-Optidash-Binary'', JNum 1)] else []),
       req_proxy = (if string_set (proxy_opt opts) then proxy_opt opts else None),
       req_url = [], req_formData = None, req_body = None \<rparr>"

text \<open>
  Lines 84 to 97: the \<^verbatim>\<open>file\<close> part of an upload. The buffer branch calls the method
  \<^verbatim>\<open>toSting\<close> on the random bytes, as the source spells it.
\<close>

definition file_part :: "env \<Rightarrow> options \<Rightarrow> dstate \<Rightarrow> jserror + filepart \<times> dstate" where
  "file_part env opts s =
     (if instanceof_Stream (file_opt opts) then Inr (PartStream (file_opt opts), s)
      else if isBuffer (file_opt opts) then
        (case Buffer_call (randomBytes env 8) ''toSting'' (JStr ''hex'') of
           Inl e \<Rightarrow> Inl e
         | Inr filename \<Rightarrow> Inr (PartValue (file_opt opts) filename, s))
      else if valid_path (file_opt opts)
        then Inr (PartFile (file_opt opts),
                  s\<lparr>effects := effects s @ [CreateReadStream (file_opt opts)]\<rparr>)
        else Inl (path_error (file_opt opts)))"

text \<open>
  Lines 104 to 106: \<^verbatim>\<open>file.on("error", ...)\<close>. A stream has the method \<^verbatim>\<open>on\<close>; the plain
  object of the buffer branch has not.
\<close>

fun file_on_error :: "filepart \<Rightarrow> dstate \<Rightarrow> jserror + dstate" where
  "file_on_error (PartValue v filename) s = Inl (TypeError ''file.on is not a function'')"
| "file_on_error f s = Inr (s\<lparr>file_l := True\<rparr>)"

text \<open>Lines 83 to 122: multipart form for an upload, JSON body for a fetch.\<close>

definition transport :: "env \<Rightarrow> options \<Rightarrow> reqOptions \<Rightarrow> dstate \<Rightarrow> jserror + reqOptions \<times> dstate" where
  "transport env opts r s =
     (if withUpload opts then
        (case file_part env opts s of
           Inl e \<Rightarrow> Inl e
         | Inr (f, s1) \<Rightarrow>
             (case file_on_error f s1 of
                Inl e \<Rightarrow> Inl e
              | Inr s2 \<Rightarrow>
                  Inr (r\<lparr>req_url := ''https://api.optidash.ai/1.0/upload'',
                         req_formData := Some (f, request opts)\<rparr>, s2)))
      else Inr (r\<lparr>req_url := ''https://api.optidash.ai/1.0/fetch'', req_body := Some (request opts)\<rparr>, s))"

text \<open>
  Lines 31 to 161, reached when no error message is set. With \<^verbatim>\<open>toJSON\<close> the request is
  posted with a completion callback and an exception of \<^verbatim>\<open>request.post\<close> is not caught;
  otherwise the post is inside \<^verbatim>\<open>try\<close>, its exception goes to the wrapped callback, and
  the request is paused and gets its \<^verbatim>\<open>error\<close> and \<^verbatim>\<open>response\<close> listeners.
\<close>

definition issue :: "env \<Rightarrow> (cbcall \<Rightarrow> jserror option) \<Rightarrow> options \<Rightarrow> dstate" where
  "issue env cb opts =
     (case transport env opts (base_reqOptions opts) initial of
        Inl e \<Rightarrow> raise e initial
      | Inr (r, s) \<Rightarrow>
          if toJSON_opt opts then
            (case post_throws env of
               Some e \<Rightarrow> raise e s
             | None \<Rightarrow> s\<lparr>effects := effects s @ [HttpPost r], post_l := True\<rparr>)
          else
            (case post_throws env of
               Some e \<Rightarrow> once cb (Cb (Some e) JNull JNull) s
             | None \<Rightarrow> s\<lparr>effects := effects s @ [HttpPost r, Pause], req_l := True\<rparr>))"

text \<open>
  Lines 26 to 29: with an error message set, the raw callback is called with
  \<^verbatim>\<open>new Error(options.errorMessage, null, null)\<close> as its only argument, before the
  callback is wrapped and before anything else is built.
\<close>

definition sendRequest :: "env \<Rightarrow> (cbcall \<Rightarrow> jserror option) \<Rightarrow> options \<Rightarrow> dstate" where
  "sendRequest env cb opts =
     (case errorMessage opts of
        None \<Rightarrow> issue env cb opts
      | Some m \<Rightarrow>
          if m \<noteq> [] then invoke cb (Cb (Some (Error (JStr m))) JUndefined JUndefined) initial
          else issue env cb opts)"

subsection \<open>sendRequest: the listeners (lines 104 to 270)\<close>

text \<open>
  The events that the listeners wait for: an error of the upload source, the completion of a
  JSON request with \<^verbatim>\<open>(err, res, body)\<close>, an error of a streamed request, the arrival of
  the response with its headers (\<open>None\<close> when \<^verbatim>\<open>res.headers\<close> is missing), an error or the
  end of writing on the destination, and a chunk or the end of the response body.
\<close>

datatype event =
    FileError jserror
  | PostDone "jserror option" jsval
  | ReqError jserror
  | Response "(string \<times> string) list option"
  | WsError jserror
  | WsFinish
  | ResData bytes
  | ResEnd

definition on_file_error :: "(cbcall \<Rightarrow> jserror option) \<Rightarrow> jserror \<Rightarrow> dstate \<Rightarrow> dstate" where
  "on_file_error cb err s = once cb (Cb (Some err) JUndefined JUndefined) s"

text \<open>Lines 131 to 139: \<^verbatim>\<open>body && body.message\<close> decides, not \<^verbatim>\<open>body.success\<close>.\<close>

definition on_post_done ::
    "(cbcall \<Rightarrow> jserror option) \<Rightarrow> jserror option \<Rightarrow> jsval \<Rightarrow> dstate \<Rightarrow> dstate" where
  "on_post_done cb err body s =
     (if \<not> called s then
        (if truthy body \<and> truthy (read_prop body ''message'')
         then once cb (Cb (Some (Error (read_prop body ''message''))) body JUndefined) s
         else once cb (Cb err body JUndefined) s)
      else s)"

definition on_req_error :: "(cbcall \<Rightarrow> jserror option) \<Rightarrow> jserror \<Rightarrow> dstate \<Rightarrow> dstate" where
  "on_req_error cb err s =
     (if \<not> called s then once cb (Cb (Some err) JUndefined JUndefined) s else s)"

text \<open>Line 188: \<^verbatim>\<open>res.headers && res.headers["x-optidash-meta"]\<close>, when it is truthy.\<close>

definition meta_header :: "(string \<times> string) list option \<Rightarrow> string option" where
  "meta_header hdrs =
     (case hdrs of
        None \<Rightarrow> None
      | Some hs \<Rightarrow>
          (case map_of hs ''x-optidash-meta'' of
             None \<Rightarrow> None
           | Some h \<Rightarrow> if h \<noteq> [] then Some h else None))"

definition msg_parse :: string where
  "msg_parse = ''Unable to parse JSON response from the Optidash API''"

text \<open>Lines 215 to 242: the destination stream, its two listeners and the pipe.\<close>

definition pipe_to_file :: "options \<Rightarrow> jsval \<Rightarrow> dstate \<Rightarrow> jserror + dstate" where
  "pipe_to_file opts meta s =
     (if instanceof_Stream (outputFile opts)
      then Inr (s\<lparr>ws_l := ws_l s @ [meta], effects := effects s @ [Pipe]\<rparr>)
      else if valid_path (outputFile opts)
      then Inr (s\<lparr>ws_l := ws_l s @ [meta],
                  effects := effects s @ [CreateWriteStream (outputFile opts), Pipe]\<rparr>)
      else Inl (path_error (outputFile opts)))"

text \<open>Lines 250 to 262: a fresh array \<^verbatim>\<open>buff\<close> and the two listeners on the response.\<close>

definition collect :: "jsval \<Rightarrow> dstate \<Rightarrow> dstate" where
  "collect meta s = s\<lparr>res_l := res_l s @ [(meta, [])]\<rparr>"

text \<open>
  Lines 205 to 269, with \<^verbatim>\<open>meta\<close> settled. \<^verbatim>\<open>meta.success\<close> is read first and raises on
  \<^verbatim>\<open>null\<close>; the early return needs both a \<^verbatim>\<open>false\<close> flag and a callback not yet called.
\<close>

definition after_meta :: "(cbcall \<Rightarrow> jserror option) \<Rightarrow> options \<Rightarrow> jsval \<Rightarrow> dstate \<Rightarrow> dstate" where
  "after_meta cb opts meta s =
     (case member meta ''success'' of
        Inl e \<Rightarrow> raise e s
      | Inr success \<Rightarrow>
          if success = JBool False \<and> \<not> called s
          then once cb (Cb (Some (Error (read_prop meta ''message''))) meta JUndefined) s
          else
            (case (if toFile_opt opts then pipe_to_file opts meta s else Inr s) of
               Inl e \<Rightarrow> raise e s
             | Inr s1 \<Rightarrow>
                 (let s2 = (if toBuffer_opt opts then collect meta s1 else s1)
                  in s2\<lparr>effects := effects s2 @ [Resume]\<rparr>)))"

text \<open>
  Lines 180 to 198: the \<^verbatim>\<open>response\<close> listener. When the header does not parse and the
  callback was already called, the \<^verbatim>\<open>catch\<close> block does not return and the listener goes
  on with \<^verbatim>\<open>meta = {}\<close>.
\<close>

definition on_response ::
    "env \<Rightarrow> (cbcall \<Rightarrow> jserror option) \<Rightarrow> options \<Rightarrow> (string \<times> string) list option \<Rightarrow> dstate \<Rightarrow> dstate" where
  "on_response env cb opts hdrs s =
     (case meta_header hdrs of
        None \<Rightarrow> after_meta cb opts (JObj []) s
      | Some h \<Rightarrow>
          (case JSON_parse env h of
             Some meta \<Rightarrow> after_meta cb opts meta s
           | None \<Rightarrow>
               if \<not> called s
               then once cb (Cb (Some (Error (JStr msg_parse))) JUndefined JUndefined) s
               else after_meta cb opts (JObj []) s))"

text \<open>Lines 229 to 239: every listener on a destination stream, in the order registered.\<close>

definition on_ws_error :: "(cbcall \<Rightarrow> jserror option) \<Rightarrow> jserror \<Rightarrow> dstate \<Rightarrow> dstate" where
  "on_ws_error cb err s =
     foldl (\<lambda>s meta. if \<not> called s then once cb (Cb (Some err) meta JUndefined) s else s) s (ws_l s)"

definition on_ws_finish :: "(cbcall \<Rightarrow> jserror option) \<Rightarrow> dstate \<Rightarrow> dstate" where
  "on_ws_finish cb s =
     foldl (\<lambda>s meta. if \<not> called s then once cb (Cb None meta JUndefined) s else s) s (ws_l s)"

text \<open>Lines 253 to 261: \<^verbatim>\<open>buff.push(data)\<close>, and \<^verbatim>\<open>Buffer.concat(buff)\<close> at the end.\<close>

definition on_data :: "bytes \<Rightarrow> dstate \<Rightarrow> dstate" where
  "on_data chunk s = s\<lparr>res_l := map (\<lambda>(meta, buff). (meta, buff @ [chunk])) (res_l s)\<rparr>"

definition on_end :: "(cbcall \<Rightarrow> jserror option) \<Rightarrow> dstate \<Rightarrow> dstate" where
  "on_end cb s =
     foldl (\<lambda>s (meta, buff). if \<not> called s then once cb (Cb None meta (JBuffer (concat buff))) s else s)
       s (res_l s)"

text \<open>An event runs the listeners registered for it, and nothing when there is none.\<close>

fun handle :: "env \<Rightarrow> (cbcall \<Rightarrow> jserror option) \<Rightarrow> options \<Rightarrow> event \<Rightarrow> dstate \<Rightarrow> dstate" where
  "handle env cb opts (FileError err) s = (if file_l s then on_file_error cb err s else s)"
| "handle env cb opts (PostDone err body) s = (if post_l s then on_post_done cb err body s else s)"
| "handle env cb opts (ReqError err) s = (if req_l s then on_req_error cb err s else s)"
| "handle env cb opts (Response hdrs) s = (if req_l s then on_response env cb opts hdrs s else s)"
| "handle env cb opts (WsError err) s = on_ws_error cb err s"
| "handle env cb opts WsFinish s = on_ws_finish cb s"
| "handle env cb opts (ResData chunk) s = on_data chunk s"
| "handle env cb opts ResEnd s = on_end cb s"

text \<open>One dispatch: the call of \<^verbatim>\<open>sendRequest\<close>, then the events in the order they occur.\<close>

definition dispatch :: "env \<Rightarrow> (cbcall \<Rightarrow> jserror option) \<Rightarrow> options \<Rightarrow> event list \<Rightarrow> dstate" where
  "dispatch env cb opts evs = foldl (\<lambda>s e. handle env cb opts e s) (sendRequest env cb opts) evs"

section \<open>Terminal sinks (src/lib/index.js, lines 372 to 485)\<close>

text \<open>
  Calling a value: a function returns, anything else raises. The sinks pass
  \<^verbatim>\<open>sendRequest\<close> an arrow function that forwards two or three arguments to the user's
  callback.
\<close>

definition call_function :: "jsval \<Rightarrow> cbcall \<Rightarrow> jserror option" where
  "call_function f args =
     (if typeof f = ''function'' then None else Some (TypeError ''cb is not a function''))"

fun forward2 :: "jsval \<Rightarrow> cbcall \<Rightarrow> jserror option" where
  "forward2 cb (Cb err response buff) = call_function cb (Cb err response JUndefined)"

fun forward3 :: "jsval \<Rightarrow> cbcall \<Rightarrow> jserror option" where
  "forward3 cb (Cb err meta buff) = call_function cb (Cb err meta buff)"

definition msg_json_cb :: string where
  "msg_json_cb = ''Optidash toJSON(fn) method requires a callback function''"

definition msg_one_response :: string where
  "msg_one_response = ''Optidash only accepts one response method per call: toJSON(fn), toFile(string|stream, fn) or toBuffer(fn)''"

definition msg_no_input :: string where
  "msg_no_input = ''No file input has been specified: upload(string|stream) or fetch(string)''"

definition msg_file_cb :: string where
  "msg_file_cb = ''Optidash toFile(string|stream, fn) method requires a callback function as a second parameter''"

definition msg_file_dest :: string where
  "msg_file_dest = ''Optidash toFile(string|stream, fn) method requires a file path or a stream as a first parameter''"

definition msg_file_webhook :: string where
  "msg_file_webhook = ''Binary responses with toFile(string|stream, fn) method are not supported when using Webhooks''"

definition msg_file_store :: string where
  "msg_file_store = ''Binary responses with toFile(string|stream, fn) method are not supported when using External Storage''"

definition msg_buffer_cb :: string where
  "msg_buffer_cb = ''Optidash toBuffer(fn) method requires a callback function''"

definition msg_buffer_webhook :: string where
  "msg_buffer_webhook = ''Binary responses with toBuffer(fn) method are not supported when using Webhooks''"

definition msg_buffer_store :: string where
  "msg_buffer_store = ''Binary responses with toBuffer(fn) method are not supported when using External Storage''"

text \<open>
  A sink returns the builder it leaves behind and the dispatch it started. \<^verbatim>\<open>toFile\<close> and
  \<^verbatim>\<open>toBuffer\<close> raise at once on a callback that is not a function; every other check only
  writes \<^verbatim>\<open>errorMessage\<close>, a later check overwriting an earlier one.
\<close>

definition toJSON :: "env \<Rightarrow> jsval \<Rightarrow> options \<Rightarrow> options \<times> dstate" where
  "toJSON env cb b =
     (let b1 = (if typeof cb \<noteq> ''function'' then b\<lparr>errorMessage := Some msg_json_cb\<rparr> else b);
          b2 = (if toFile_opt b1 \<or> toBuffer_opt b1
                then b1\<lparr>errorMessage := Some msg_one_response\<rparr> else b1);
          b3 = (if \<not> withUpload b2 \<and> \<not> withFetch b2
                then b2\<lparr>errorMessage := Some msg_no_input\<rparr> else b2);
          b4 = b3\<lparr>toJSON_opt := True\<rparr>
      in (b4, sendRequest env (forward2 cb) b4))"

definition toFile :: "env \<Rightarrow> jsval \<Rightarrow> jsval \<Rightarrow> options \<Rightarrow> jserror + options \<times> dstate" where
  "toFile env f cb b =
     (if typeof cb \<noteq> ''function'' then Inl (Error (JStr msg_file_cb))
      else
        (let b1 = (if typeof f \<noteq> ''string'' \<and> \<not> instanceof_Stream f
                   then b\<lparr>errorMessage := Some msg_file_dest\<rparr> else b);
             b2 = (if toJSON_opt b1 \<or> toBuffer_opt b1
                   then b1\<lparr>errorMessage := Some msg_one_response\<rparr> else b1);
             b3 = (if \<not> withUpload b2 \<and> \<not> withFetch b2
                   then b2\<lparr>errorMessage := Some msg_no_input\<rparr> else b2);
             b4 = (if truthy (get_prop ''webhook'' (request b3))
                   then b3\<lparr>errorMessage := Some msg_file_webhook\<rparr> else b3);
             b5 = (if truthy (get_prop ''store'' (request b4))
                   then b4\<lparr>errorMessage := Some msg_file_store\<rparr> else b4);
             b6 = b5\<lparr>request := set_prop ''response'' (JObj [(''mode'', JStr ''binary'')]) (request b5),
                     toFile_opt := True, outputFile := f\<rparr>
         in Inr (b6, sendRequest env (forward2 cb) b6)))"

definition toBuffer :: "env \<Rightarrow> jsval \<Rightarrow> options \<Rightarrow> jserror + options \<times> dstate" where
  "toBuffer env cb b =
     (if typeof cb \<noteq> ''function'' then Inl (Error (JStr msg_buffer_cb))
      else
        (let b2 = (if toJSON_opt b \<or> toFile_opt b
                   then b\<lparr>errorMessage := Some msg_one_response\<rparr> else b);
             b3 = (if \<not> withUpload b2 \<and> \<not> withFetch b2
                   then b2\<lparr>errorMessage := Some msg_no_input\<rparr> else b2);
             b4 = (if truthy (get_prop ''webhook'' (request b3))
                   then b3\<lparr>errorMessage := Some msg_buffer_webhook\<rparr> else b3);
             b5 = (if truthy (get_prop ''store'' (request b4))
                   then b4\<lparr>errorMessage := Some msg_buffer_store\<rparr> else b4);
             b6 = b5\<lparr>request := set_prop ''response'' (JObj [(''mode'', JStr ''binary'')]) (request b5),
                     toBuffer_opt := True\<rparr>
         in Inr (b6, sendRequest env (forward3 cb) b6)))"


text \<open>A call of one of the three sinks, and what it returns or raises.\<close>

datatype sink = ToJSON jsval | ToFile jsval jsval | ToBuffer jsval

fun run_sink :: "env \<Rightarrow> sink \<Rightarrow> options \<Rightarrow> jserror + options \<times> dstate" where
  "run_sink env (ToJSON cb) b = Inr (toJSON env cb b)"
| "run_sink env (ToFile f cb) b = toFile env f cb b"
| "run_sink env (ToBuffer cb) b = toBuffer env cb b"

fun sink_callback :: "sink \<Rightarrow> jsval" where
  "sink_callback (ToJSON cb) = cb"
| "sink_callback (ToFile f cb) = cb"
| "sink_callback (ToBuffer cb) = cb"

text \<open>No listener is registered: no event can reach the callback.\<close>

definition quiet :: "dstate \<Rightarrow> bool" where
  "quiet s = (\<not> file_l s \<and> \<not> post_l s \<and> \<not> req_l s \<and> ws_l s = [] \<and> res_l s = [])"

section \<open>Notions used in the statements\<close>

text \<open>The messages that the builder and the sinks write into \<^verbatim>\<open>errorMessage\<close>.\<close>

definition configuration_errors :: "string list" where
  "configuration_errors =
     [msg_upload_arg, msg_one_input, msg_fetch_arg, msg_json_cb, msg_one_response, msg_no_input,
      msg_file_dest, msg_file_webhook, msg_file_store, msg_buffer_webhook, msg_buffer_store]"

fun is_FileError :: "event \<Rightarrow> bool" where
  "is_FileError (FileError err) = True"
| "is_FileError e = False"

fun is_PostDone :: "event \<Rightarrow> bool" where
  "is_PostDone (PostDone err b) = True"
| "is_PostDone e = False"

fun is_ReqError :: "event \<Rightarrow> bool" where
  "is_ReqError (ReqError err) = True"
| "is_ReqError e = False"

fun is_Response :: "event \<Rightarrow> bool" where
  "is_Response (Response hdrs) = True"
| "is_Response e = False"

fun is_WsEvent :: "event \<Rightarrow> bool" where
  "is_WsEvent (WsError err) = True"
| "is_WsEvent WsFinish = True"
| "is_WsEvent e = False"

fun is_ResEnd :: "event \<Rightarrow> bool" where
  "is_ResEnd ResEnd = True"
| "is_ResEnd e = False"

text \<open>
  The metadata that the \<^verbatim>\<open>response\<close> listener extracts: the empty object without the
  header, the parsed header otherwise, and nothing when the header does not parse.
\<close>

definition parsed_meta :: "env \<Rightarrow> (string \<times> string) list option \<Rightarrow> jsval option" where
  "parsed_meta env hdrs =
     (case meta_header hdrs of None \<Rightarrow> Some (JObj []) | Some h \<Rightarrow> JSON_parse env h)"

text \<open>
  A response is rejected when its metadata header is present and either does not parse or
  parses to a value whose \<^verbatim>\<open>success\<close> is \<^verbatim>\<open>false\<close>.
\<close>

definition rejects :: "env \<Rightarrow> (string \<times> string) list option \<Rightarrow> bool" where
  "rejects env hdrs =
     (case meta_header hdrs of
        None \<Rightarrow> False
      | Some h \<Rightarrow>
          (case JSON_parse env h of
             None \<Rightarrow> True
           | Some meta \<Rightarrow> member meta ''success'' = Inr (JBool False)))"


fun is_rejected :: "env \<Rightarrow> event \<Rightarrow> bool" where
  "is_rejected env (Response hdrs) = rejects env hdrs"
| "is_rejected env e = False"

text \<open>Some response is followed, later in the list, by an event of the given kind.\<close>

fun response_then :: "(event \<Rightarrow> bool) \<Rightarrow> event list \<Rightarrow> bool" where
  "response_then P [] = False"
| "response_then P (e # es) = (is_Response e \<and> list_ex P es \<or> response_then P es)"

text \<open>
  The event lists that bring a dispatch to its end: an error message was set; or the upload
  source failed; or, for a JSON request, the request completed; or, for a streamed request,
  posting raised, the request failed, a response was rejected, a response was followed by an
  error or the end of writing on the destination (\<^verbatim>\<open>toFile\<close>), or by the end of the body
  (\<^verbatim>\<open>toBuffer\<close>).
\<close>

definition settled :: "env \<Rightarrow> options \<Rightarrow> event list \<Rightarrow> bool" where
  "settled env opts evs =
     (string_set (errorMessage opts)
      \<or> withUpload opts \<and> list_ex is_FileError evs
      \<or> (if toJSON_opt opts then list_ex is_PostDone evs
          else post_throws env \<noteq> None
             \<or> list_ex is_ReqError evs
             \<or> list_ex (is_rejected env) evs
             \<or> toFile_opt opts \<and> response_then is_WsEvent evs
             \<or> toBuffer_opt opts \<and> response_then is_ResEnd evs))"

text \<open>
  The state of the \<^verbatim>\<open>once\<close> wrapper agrees with the record of calls: no call before
  \<^verbatim>\<open>called\<close> is set, one call after.
\<close>

definition one_shot :: "dstate \<Rightarrow> bool" where
  "one_shot s = (if called s then length (calls s) = 1 else calls s = [])"

section \<open>Sample inputs\<close>

text \<open>
  A callback that returns, a \<^verbatim>\<open>JSON.parse\<close> cut down to the four header values used in
  the examples below (every other string is taken as malformed), and an environment in which
  \<^verbatim>\<open>request.post\<close> does not raise.
\<close>

definition returns :: "cbcall \<Rightarrow> jserror option" where
  "returns args = None"

definition parse_sample :: "string \<Rightarrow> jsval option" where
  \<open>parse_sample h =
     (if h = ''{"success":true}'' then Some (JObj [(''success'', JBool True)])
      else if h = ''{"success":false,"message":"bad input"}''
        then Some (JObj [(''success'', JBool False), (''message'', JStr ''bad input'')])
      else if h = ''{}'' then Some (JObj [])
      else if h = ''null'' then Some JNull
      else None)\<close>

definition sample_env :: env where
  "sample_env = \<lparr> JSON_parse = parse_sample, post_throws = None,
                   randomBytes = (\<lambda>n. replicate n 0) \<rparr>"

text \<open>
  Three requests as the sinks dispatch them: \<^verbatim>\<open>fetch(url).toJSON(fn)\<close>,
  \<^verbatim>\<open>fetch(url).toBuffer(fn)\<close> and \<^verbatim>\<open>upload(path).toFile(path, fn)\<close>.
\<close>

definition json_job :: options where
  "json_job = fst (toJSON sample_env (JFun 0) (chain [Fetch (JStr ''https://x/in.jpg'')] (new_options ''key'')))"

definition buffer_job :: options where
  "buffer_job =
     fst (projr (toBuffer sample_env (JFun 0) (chain [Fetch (JStr ''https://x/in.jpg'')] (new_options ''key''))))"


text \<open>
  A record as only a direct caller of \<^verbatim>\<open>sendRequest\<close> can build it: an upload whose
  source is a buffer. (\<^verbatim>\<open>upload\<close> itself accepts a path or a stream only.)
\<close>

definition buffer_upload_job :: options where
  "buffer_upload_job = (new_options ''key'')\<lparr>withUpload := True, file_opt := JBuffer [1, 2, 3], toJSON_opt := True\<rparr>"

section \<open>Properties of the builder\<close>

lemma map_of_set_prop: "map_of (set_prop k v ps) k = Some v"
  by (induction ps) auto

lemmas setter_defs = optimize_def flip_def resize_def scale_def crop_def watermark_def mask_def
  filter_op_def adjust_def auto_op_def border_def padding_def store_def output_op_def
  webhook_def cdn_def

lemmas msg_defs = msg_upload_arg_def msg_one_input_def msg_fetch_arg_def msg_json_cb_def
  msg_one_response_def msg_no_input_def msg_file_cb_def msg_file_dest_def msg_file_webhook_def
  msg_file_store_def msg_buffer_cb_def msg_buffer_webhook_def msg_buffer_store_def

lemma setters_body:
  "(name, f) \<in> set setters \<Longrightarrow>
     f d b = (if typeof d = ''object'' then b\<lparr>request := set_prop name d (request b)\<rparr> else b)"
  unfolding setters_def by (auto simp: setter_defs)

lemma msgs_nonempty:
  "msg_upload_arg \<noteq> []" "msg_one_input \<noteq> []" "msg_fetch_arg \<noteq> []" "msg_json_cb \<noteq> []"
  "msg_one_response \<noteq> []" "msg_no_input \<noteq> []" "msg_file_dest \<noteq> []"
  "msg_file_webhook \<noteq> []" "msg_file_store \<noteq> []" "msg_buffer_webhook \<noteq> []"
  "msg_buffer_store \<noteq> []"
  by (simp_all add: msg_defs)

lemma chain_snoc: "chain (cs @ [c]) b = apply_call c (chain cs b)"
  by (simp add: chain_def)

lemma apply_call_message:
  "errorMessage (apply_call c b) = errorMessage b
   \<or> errorMessage (apply_call c b) \<in> {Some msg_upload_arg, Some msg_one_input, Some msg_fetch_arg}"
  by (cases c) (simp_all add: upload_def fetch_def proxy_def setter_defs Let_def split: jsval.splits)

lemma chain_message_nonempty: "errorMessage (chain cs (new_options k)) \<noteq> Some []"
proof (induction cs rule: rev_induct)
  case Nil
  show ?case by (simp add: chain_def new_options_def)
next
  case (snoc c cs)
  from apply_call_message [of c "chain cs (new_options k)"] snoc show ?case
    by (auto simp: chain_snoc msgs_nonempty)
qed

section \<open>The callback wrapper\<close>

lemma raise_fields [simp]:
  "called (raise e s) = called s" "calls (raise e s) = calls s"
  "effects (raise e s) = effects s" "file_l (raise e s) = file_l s"
  "post_l (raise e s) = post_l s" "req_l (raise e s) = req_l s"
  "ws_l (raise e s) = ws_l s" "res_l (raise e s) = res_l s"
  "raised (raise e s) = (case raised s of None \<Rightarrow> Some e | Some e' \<Rightarrow> Some e')"
  by (simp_all add: raise_def split: option.splits)

lemma invoke_fields [simp]:
  "called (invoke cb a s) = called s" "calls (invoke cb a s) = calls s @ [a]"
  "effects (invoke cb a s) = effects s" "file_l (invoke cb a s) = file_l s"
  "post_l (invoke cb a s) = post_l s" "req_l (invoke cb a s) = req_l s"
  "ws_l (invoke cb a s) = ws_l s" "res_l (invoke cb a s) = res_l s"
  "raised (invoke cb a s) = (case raised s of None \<Rightarrow> cb a | Some e' \<Rightarrow> Some e')"
  by (simp_all add: invoke_def Let_def split: option.splits)

lemma once_fields [simp]:
  "called (once cb a s) = True"
  "calls (once cb a s) = (if called s then calls s else calls s @ [a])"
  "effects (once cb a s) = effects s" "file_l (once cb a s) = file_l s"
  "post_l (once cb a s) = post_l s" "req_l (once cb a s) = req_l s"
  "ws_l (once cb a s) = ws_l s" "res_l (once cb a s) = res_l s"
  "raised (once cb a s) =
     (if called s then raised s else case raised s of None \<Rightarrow> cb a | Some e' \<Rightarrow> Some e')"
  by (simp_all add: once_def)

lemma once_called [simp]: "called s \<Longrightarrow> once cb a s = s"
  by (simp add: once_def)

text \<open>A guarded loop over listeners calls the callback for the first listener at most.\<close>

lemma guarded_fold_called:
  "called s \<Longrightarrow> foldl (\<lambda>s x. if \<not> called s then once cb (F x) s else s) s xs = s"
  by (induction xs) simp_all

lemma guarded_fold:
  "foldl (\<lambda>s x. if \<not> called s then once cb (F x) s else s) s xs =
     (case xs of [] \<Rightarrow> s | x # ys \<Rightarrow> if called s then s else once cb (F x) s)"
  by (cases xs) (simp_all add: guarded_fold_called)

lemma on_ws_error_eq:
  "on_ws_error cb err s =
     (case ws_l s of [] \<Rightarrow> s
      | meta # ms \<Rightarrow> if called s then s else once cb (Cb (Some err) meta JUndefined) s)"
  unfolding on_ws_error_def by (rule guarded_fold)

lemma on_ws_finish_eq:
  "on_ws_finish cb s =
     (case ws_l s of [] \<Rightarrow> s
      | meta # ms \<Rightarrow> if called s then s else once cb (Cb None meta JUndefined) s)"
  unfolding on_ws_finish_def by (rule guarded_fold)

lemma on_end_eq:
  "on_end cb s =
     (case res_l s of [] \<Rightarrow> s
      | l # ls \<Rightarrow> if called s then s
                  else once cb (Cb None (fst l) (JBuffer (concat (snd l)))) s)"
proof -
  have "on_end cb s =
      foldl (\<lambda>s x. if \<not> called s then once cb (Cb None (fst x) (JBuffer (concat (snd x)))) s else s)
        s (res_l s)"
    by (simp add: on_end_def case_prod_unfold)
  then show ?thesis by (simp only: guarded_fold)
qed

lemmas handler_eqs = on_file_error_def on_post_done_def on_req_error_def on_ws_error_eq
  on_ws_finish_eq on_end_eq on_data_def

section \<open>The invariant\<close>

lemma one_shot_once: "one_shot s \<Longrightarrow> one_shot (once cb a s)"
  by (simp add: one_shot_def)

lemma one_shot_after_meta: "one_shot s \<Longrightarrow> one_shot (after_meta cb opts meta s)"
  by (simp add: one_shot_def after_meta_def pipe_to_file_def collect_def Let_def
           split: sum.splits)

lemma one_shot_on_response: "one_shot s \<Longrightarrow> one_shot (on_response env cb opts hdrs s)"
  by (simp add: on_response_def one_shot_after_meta one_shot_once split: option.splits)

lemma one_shot_handle: "one_shot s \<Longrightarrow> one_shot (handle env cb opts e s)"
  by (cases e)
     (simp_all add: handler_eqs one_shot_on_response one_shot_once, 
      simp_all add: one_shot_def split: list.splits)

lemma initial_fields [simp]:
  "called initial = False" "calls initial = []" "raised initial = None" "effects initial = []"
  "file_l initial = False" "post_l initial = False" "req_l initial = False"
  "ws_l initial = []" "res_l initial = []"
  by (simp_all add: initial_def)

text \<open>The transport step touches neither the wrapper nor the record of calls.\<close>

lemma transport_fields:
  "transport env opts r s = Inr (r', s') \<Longrightarrow>
     called s' = called s \<and> calls s' = calls s \<and> raised s' = raised s \<and> post_l s' = post_l s
     \<and> req_l s' = req_l s \<and> ws_l s' = ws_l s \<and> res_l s' = res_l s
     \<and> file_l s' = (file_l s \<or> withUpload opts)
     \<and> set (effects s') \<subseteq> set (effects s) \<union> {CreateReadStream (file_opt opts)}"
  by (cases "file_opt opts")
     (auto simp: transport_def file_part_def Buffer_call_def split: if_splits)

lemma one_shot_issue: "one_shot (issue env cb opts)"
  by (auto simp: issue_def one_shot_def split: sum.splits option.splits dest!: transport_fields)

lemma quiet_handle: "quiet s \<Longrightarrow> handle env cb opts e s = s"
  by (cases e) (simp_all add: quiet_def handler_eqs)

lemma quiet_run: "quiet s \<Longrightarrow> foldl (\<lambda>s e. handle env cb opts e s) s evs = s"
  by (induction evs) (simp_all add: quiet_handle)

lemma one_shot_run:
  "one_shot s \<Longrightarrow> one_shot (foldl (\<lambda>s e. handle env cb opts e s) s evs)"
  by (induction evs arbitrary: s) (simp_all add: one_shot_handle)

lemma sendRequest_preflight:
  "errorMessage opts = Some m \<Longrightarrow> m \<noteq> [] \<Longrightarrow>
     sendRequest env cb opts = invoke cb (Cb (Some (Error (JStr m))) JUndefined JUndefined) initial"
  by (simp add: sendRequest_def)

lemma sendRequest_issue:
  "\<not> string_set (errorMessage opts) \<Longrightarrow> sendRequest env cb opts = issue env cb opts"
  by (cases "errorMessage opts") (simp_all add: sendRequest_def)

lemma quiet_invoke_initial: "quiet (invoke cb a initial)"
  by (simp add: quiet_def)

lemma dispatch_preflight:
  "errorMessage opts = Some m \<Longrightarrow> m \<noteq> [] \<Longrightarrow> dispatch env cb opts evs = sendRequest env cb opts"
  by (simp add: dispatch_def sendRequest_preflight quiet_run quiet_invoke_initial)

lemma string_set_iff: "string_set x \<longleftrightarrow> (\<exists>m. x = Some m \<and> m \<noteq> [])"
  by (cases x) simp_all

lemma dispatch_one_shot_or_preflight:
  "(\<not> string_set (errorMessage opts) \<and> one_shot (dispatch env cb opts evs))
   \<or> (string_set (errorMessage opts) \<and> length (calls (dispatch env cb opts evs)) = 1)"
proof (cases "string_set (errorMessage opts)")
  case True
  then obtain m where "errorMessage opts = Some m" "m \<noteq> []"
    by (auto simp: string_set_iff)
  then show ?thesis using True
    by (simp add: dispatch_preflight sendRequest_preflight)
next
  case False
  then show ?thesis
    by (simp add: dispatch_def sendRequest_issue one_shot_issue one_shot_run)
qed

lemma at_most_once: "length (calls (dispatch env cb opts evs)) \<le> 1"
  using dispatch_one_shot_or_preflight [of opts env cb evs]
  by (auto simp: one_shot_def split: if_splits)

section \<open>Monotone\<close>

lemma after_meta_mono:
  "called s \<Longrightarrow> called (after_meta cb opts meta s)"
  "file_l s \<Longrightarrow> file_l (after_meta cb opts meta s)"
  "post_l s \<Longrightarrow> post_l (after_meta cb opts meta s)"
  "req_l s \<Longrightarrow> req_l (after_meta cb opts meta s)"
  "ws_l s \<noteq> [] \<Longrightarrow> ws_l (after_meta cb opts meta s) \<noteq> []"
  "res_l s \<noteq> [] \<Longrightarrow> res_l (after_meta cb opts meta s) \<noteq> []"
  "raised s = Some x \<Longrightarrow> raised (after_meta cb opts meta s) = Some x"
  by (simp_all add: after_meta_def pipe_to_file_def collect_def Let_def split: sum.split)

lemma on_response_mono:
  "called s \<Longrightarrow> called (on_response env cb opts hdrs s)"
  "file_l s \<Longrightarrow> file_l (on_response env cb opts hdrs s)"
  "post_l s \<Longrightarrow> post_l (on_response env cb opts hdrs s)"
  "req_l s \<Longrightarrow> req_l (on_response env cb opts hdrs s)"
  "ws_l s \<noteq> [] \<Longrightarrow> ws_l (on_response env cb opts hdrs s) \<noteq> []"
  "res_l s \<noteq> [] \<Longrightarrow> res_l (on_response env cb opts hdrs s) \<noteq> []"
  "raised s = Some x \<Longrightarrow> raised (on_response env cb opts hdrs s) = Some x"
  by (simp_all add: on_response_def after_meta_mono split: option.split)

lemma handle_called: "called s \<Longrightarrow> called (handle env cb opts e s)"
  by (cases e) (simp_all add: handler_eqs on_response_mono split: list.split)

lemma handle_file_l: "file_l s \<Longrightarrow> file_l (handle env cb opts e s)"
  by (cases e) (simp_all add: handler_eqs on_response_mono split: list.split)

lemma handle_post_l: "post_l s \<Longrightarrow> post_l (handle env cb opts e s)"
  by (cases e) (simp_all add: handler_eqs on_response_mono split: list.split)

lemma handle_req_l: "req_l s \<Longrightarrow> req_l (handle env cb opts e s)"
  by (cases e) (simp_all add: handler_eqs on_response_mono split: list.split)

lemma handle_ws_l: "ws_l s \<noteq> [] \<Longrightarrow> ws_l (handle env cb opts e s) \<noteq> []"
  by (cases e) (simp_all add: handler_eqs on_response_mono split: list.split)

lemma handle_res_l: "res_l s \<noteq> [] \<Longrightarrow> res_l (handle env cb opts e s) \<noteq> []"
  by (cases e) (simp_all add: handler_eqs on_response_mono split: list.split)

lemma handle_raised: "raised s = Some x \<Longrightarrow> raised (handle env cb opts e s) = Some x"
  by (cases e) (simp_all add: handler_eqs on_response_mono split: list.split)

lemmas handle_mono = handle_called handle_file_l handle_post_l handle_req_l handle_ws_l
  handle_res_l handle_raised

lemma run_mono:
  "called s \<Longrightarrow> called (foldl (\<lambda>s e. handle env cb opts e s) s evs)"
  "file_l s \<Longrightarrow> file_l (foldl (\<lambda>s e. handle env cb opts e s) s evs)"
  "post_l s \<Longrightarrow> post_l (foldl (\<lambda>s e. handle env cb opts e s) s evs)"
  "req_l s \<Longrightarrow> req_l (foldl (\<lambda>s e. handle env cb opts e s) s evs)"
  "ws_l s \<noteq> [] \<Longrightarrow> ws_l (foldl (\<lambda>s e. handle env cb opts e s) s evs) \<noteq> []"
  "res_l s \<noteq> [] \<Longrightarrow> res_l (foldl (\<lambda>s e. handle env cb opts e s) s evs) \<noteq> []"
  "raised s = Some x \<Longrightarrow> raised (foldl (\<lambda>s e. handle env cb opts e s) s evs) = Some x"
  by (induction evs arbitrary: s) (simp_all add: handle_mono)

section \<open>Events that settle a dispatch\<close>

lemma issue_listeners:
  assumes "raised (issue env cb opts) = None"
  shows "withUpload opts \<Longrightarrow> file_l (issue env cb opts)"
    and "toJSON_opt opts \<Longrightarrow> post_l (issue env cb opts)"
    and "\<not> toJSON_opt opts \<Longrightarrow> post_throws env = None \<Longrightarrow> req_l (issue env cb opts)"
    and "\<not> toJSON_opt opts \<Longrightarrow> post_throws env \<noteq> None \<Longrightarrow> called (issue env cb opts)"
  using assms
  by (auto simp: issue_def split: sum.splits option.splits dest!: transport_fields)

lemma list_ex_split: "list_ex P xs \<Longrightarrow> \<exists>pre x post. xs = pre @ x # post \<and> P x"
  by (metis list_ex_iff split_list)

lemma response_then_split:
  "response_then P evs \<Longrightarrow> \<exists>pre h mid x post. evs = pre @ Response h # mid @ x # post \<and> P x"
proof (induction evs)
  case Nil
  then show ?case by simp
next
  case (Cons e evs)
  show ?case
  proof (cases "is_Response e \<and> list_ex P evs")
    case True
    then obtain h where e: "e = Response h" by (cases e) simp_all
    from True obtain mid x post where "evs = mid @ x # post" "P x"
      using list_ex_split by blast
    with e have "e # evs = [] @ Response h # mid @ x # post \<and> P x" by simp
    then show ?thesis by blast
  next
    case False
    with Cons.prems have "response_then P evs" by auto
    from Cons.IH [OF this] obtain pre h mid x post
      where "evs = pre @ Response h # mid @ x # post" "P x" by blast
    then have "e # evs = (e # pre) @ Response h # mid @ x # post \<and> P x" by simp
    then show ?thesis by blast
  qed
qed

lemma called_after_event:
  "file_l s \<Longrightarrow> is_FileError e \<Longrightarrow> called (handle env cb opts e s)"
  "post_l s \<Longrightarrow> is_PostDone e \<Longrightarrow> called (handle env cb opts e s)"
  "req_l s \<Longrightarrow> is_ReqError e \<Longrightarrow> called (handle env cb opts e s)"
  "ws_l s \<noteq> [] \<Longrightarrow> is_WsEvent e \<Longrightarrow> called (handle env cb opts e s)"
  "res_l s \<noteq> [] \<Longrightarrow> is_ResEnd e \<Longrightarrow> called (handle env cb opts e s)"
  by (cases e; simp add: handler_eqs split: list.split)+

lemma after_meta_rejected:
  "member meta ''success'' = Inr (JBool False) \<Longrightarrow> called (after_meta cb opts meta s)"
  by (cases "called s") (simp_all add: after_meta_mono, simp add: after_meta_def)

lemma on_response_rejected: "rejects env hdrs \<Longrightarrow> called (on_response env cb opts hdrs s)"
  by (cases "called s")
     (simp_all add: on_response_mono,
      simp add: rejects_def on_response_def after_meta_rejected split: option.splits)

lemma called_after_rejected:
  "req_l s \<Longrightarrow> is_rejected env e \<Longrightarrow> called (handle env cb opts e s)"
  by (cases e) (simp_all add: on_response_rejected)

lemma wired_after_meta:
  "called (after_meta cb opts meta s) \<or> raised (after_meta cb opts meta s) \<noteq> None
   \<or> (toFile_opt opts \<longrightarrow> ws_l (after_meta cb opts meta s) \<noteq> [])
     \<and> (toBuffer_opt opts \<longrightarrow> res_l (after_meta cb opts meta s) \<noteq> [])"
  by (simp add: after_meta_def pipe_to_file_def collect_def Let_def split: sum.split option.split)

lemma wired_after_response:
  "req_l s \<Longrightarrow>
   called (handle env cb opts (Response h) s) \<or> raised (handle env cb opts (Response h) s) \<noteq> None
   \<or> (toFile_opt opts \<longrightarrow> ws_l (handle env cb opts (Response h) s) \<noteq> [])
     \<and> (toBuffer_opt opts \<longrightarrow> res_l (handle env cb opts (Response h) s) \<noteq> [])"
  using wired_after_meta [of cb opts _ s]
  by (simp add: on_response_def split: option.split)

text \<open>One event after which the callback has been called, anywhere in the list, is enough.\<close>

lemma called_by_event:
  assumes "evs = pre @ e # post"
    and "called (handle env cb opts e (foldl (\<lambda>s e. handle env cb opts e s) s pre))"
  shows "called (foldl (\<lambda>s e. handle env cb opts e s) s evs)"
  using assms by (simp add: run_mono)

lemma raised_None_prefix:
  "raised (foldl (\<lambda>s e. handle env cb opts e s) s (pre @ post)) = None \<Longrightarrow>
   raised (foldl (\<lambda>s e. handle env cb opts e s) s pre) = None"
  using run_mono(7) [of "foldl (\<lambda>s e. handle env cb opts e s) s pre" _ env cb opts post]
  by (cases "raised (foldl (\<lambda>s e. handle env cb opts e s) s pre)") auto

lemma called_by_response_then:
  assumes evs: "evs = pre @ Response h # mid @ x # post"
    and req: "req_l s"
    and ok: "raised (foldl (\<lambda>s e. handle env cb opts e s) s evs) = None"
    and after: "\<And>t. req_l t \<Longrightarrow>
        called (handle env cb opts (Response h) t)
        \<or> raised (handle env cb opts (Response h) t) \<noteq> None
        \<or> L (handle env cb opts (Response h) t)"
    and mono: "\<And>t es. L t \<Longrightarrow> L (foldl (\<lambda>s e. handle env cb opts e s) t es)"
    and fire: "\<And>t. L t \<Longrightarrow> called (handle env cb opts x t)"
  shows "called (foldl (\<lambda>s e. handle env cb opts e s) s evs)"
proof -
  let ?run = "\<lambda>s es. foldl (\<lambda>s e. handle env cb opts e s) s es"
  let ?s1 = "?run s pre"
  let ?s2 = "handle env cb opts (Response h) ?s1"
  let ?s3 = "?run ?s2 mid"
  let ?s4 = "handle env cb opts x ?s3"
  have final: "?run s evs = ?run ?s4 post" by (simp add: evs)
  have "req_l ?s1" using req by (rule run_mono)
  then have "called ?s2 \<or> raised ?s2 \<noteq> None \<or> L ?s2" by (rule after)
  moreover have "raised ?s2 = None"
    using raised_None_prefix [of env cb opts s "pre @ [Response h]" "mid @ x # post"] ok evs
    by simp
  ultimately consider "called ?s2" | "L ?s2" by blast
  then have "called ?s4"
  proof cases
    case 1
    then show ?thesis by (simp add: run_mono handle_called)
  next
    case 2
    then have "L ?s3" by (rule mono)
    then show ?thesis by (rule fire)
  qed
  then show ?thesis unfolding final by (rule run_mono)
qed

lemma settled_called:
  assumes st: "settled env opts evs"
    and no_msg: "\<not> string_set (errorMessage opts)"
    and ok: "raised (dispatch env cb opts evs) = None"
  shows "called (dispatch env cb opts evs)"
proof -
  let ?run = "\<lambda>s es. foldl (\<lambda>s e. handle env cb opts e s) s es"
  let ?s0 = "issue env cb opts"
  have d: "dispatch env cb opts evs = ?run ?s0 evs"
    by (simp add: dispatch_def sendRequest_issue no_msg)
  have ok': "raised (?run ?s0 evs) = None" using ok d by simp
  have ok0: "raised ?s0 = None"
    using raised_None_prefix [of env cb opts ?s0 "[]" evs] ok' by simp
  note l = issue_listeners [OF ok0]
  from st no_msg consider
      (src) "withUpload opts" "list_ex is_FileError evs"
    | (json) "toJSON_opt opts" "list_ex is_PostDone evs"
    | (post) "\<not> toJSON_opt opts" "post_throws env \<noteq> None"
    | (req) "\<not> toJSON_opt opts" "post_throws env = None" "list_ex is_ReqError evs"
    | (rej) "\<not> toJSON_opt opts" "post_throws env = None" "list_ex (is_rejected env) evs"
    | (ws) "\<not> toJSON_opt opts" "post_throws env = None" "toFile_opt opts"
           "response_then is_WsEvent evs"
    | (res) "\<not> toJSON_opt opts" "post_throws env = None" "toBuffer_opt opts"
           "response_then is_ResEnd evs"
    by (auto simp: settled_def split: if_splits)
  then have "called (?run ?s0 evs)"
  proof cases
    case src
    from src(2) obtain pre e post where e: "evs = pre @ e # post" "is_FileError e"
      using list_ex_split by blast
    have "file_l (?run ?s0 pre)" using src(1) by (intro run_mono l)
    then show ?thesis using e by (intro called_by_event [OF e(1)] called_after_event)
  next
    case json
    from json(2) obtain pre e post where e: "evs = pre @ e # post" "is_PostDone e"
      using list_ex_split by blast
    have "post_l (?run ?s0 pre)" using json(1) by (intro run_mono l)
    then show ?thesis using e by (intro called_by_event [OF e(1)] called_after_event)
  next
    case post
    then show ?thesis by (intro run_mono l)
  next
    case req
    from req(3) obtain pre e post where e: "evs = pre @ e # post" "is_ReqError e"
      using list_ex_split by blast
    have "req_l (?run ?s0 pre)" using req by (intro run_mono l)
    then show ?thesis using e by (intro called_by_event [OF e(1)] called_after_event)
  next
    case rej
    from rej(3) obtain pre e post where e: "evs = pre @ e # post" "is_rejected env e"
      using list_ex_split by blast
    have "req_l (?run ?s0 pre)" using rej by (intro run_mono l)
    then show ?thesis using e by (intro called_by_event [OF e(1)] called_after_rejected)
  next
    case ws
    from ws(4) obtain pre h mid x post
      where e: "evs = pre @ Response h # mid @ x # post" and x: "is_WsEvent x"
      using response_then_split by blast
    have r: "req_l ?s0" using ws by (intro l)
    show ?thesis
    proof (rule called_by_response_then [OF e r ok', where L = "\<lambda>t. ws_l t \<noteq> []"])
      show "called (handle env cb opts (Response h) t)
        \<or> raised (handle env cb opts (Response h) t) \<noteq> None
        \<or> ws_l (handle env cb opts (Response h) t) \<noteq> []" if "req_l t" for t
        using wired_after_response [OF that, of env cb opts h] ws(3) by blast
      show "ws_l (foldl (\<lambda>s e. handle env cb opts e s) t es) \<noteq> []" if "ws_l t \<noteq> []" for t es
        using that by (rule run_mono)
      show "called (handle env cb opts x t)" if "ws_l t \<noteq> []" for t
        using that x by (rule called_after_event)
    qed
  next
    case res
    from res(4) obtain pre h mid x post
      where e: "evs = pre @ Response h # mid @ x # post" and x: "is_ResEnd x"
      using response_then_split by blast
    have r: "req_l ?s0" using res by (intro l)
    show ?thesis
    proof (rule called_by_response_then [OF e r ok', where L = "\<lambda>t. res_l t \<noteq> []"])
      show "called (handle env cb opts (Response h) t)
        \<or> raised (handle env cb opts (Response h) t) \<noteq> None
        \<or> res_l (handle env cb opts (Response h) t) \<noteq> []" if "req_l t" for t
        using wired_after_response [OF that, of env cb opts h] res(3) by blast
      show "res_l (foldl (\<lambda>s e. handle env cb opts e s) t es) \<noteq> []" if "res_l t \<noteq> []" for t es
        using that by (rule run_mono)
      show "called (handle env cb opts x t)" if "res_l t \<noteq> []" for t
        using that x by (rule called_after_event)
    qed
  qed
  then show ?thesis by (simp add: d)
qed

lemma settled_exactly_once:
  assumes "settled env opts evs" and "raised (dispatch env cb opts evs) = None"
  shows "length (calls (dispatch env cb opts evs)) = 1"
proof (cases "string_set (errorMessage opts)")
  case True
  then show ?thesis using dispatch_one_shot_or_preflight [of opts env cb evs] by simp
next
  case False
  with assms have "called (dispatch env cb opts evs)" by (intro settled_called)
  moreover have "one_shot (dispatch env cb opts evs)"
    using dispatch_one_shot_or_preflight [of opts env cb evs] False by simp
  ultimately show ?thesis by (simp add: one_shot_def)
qed

section \<open>What a sink dispatches with\<close>

lemma toJSON_message:
  "\<exists>opts. toJSON env cb b = (opts, sendRequest env (forward2 cb) opts) \<and>
     errorMessage opts \<in> {errorMessage b, Some msg_json_cb, Some msg_one_response, Some msg_no_input}"
  by (simp add: toJSON_def Let_def)

lemma toFile_message:
  "typeof cb = ''function'' \<Longrightarrow>
   \<exists>opts. toFile env f cb b = Inr (opts, sendRequest env (forward2 cb) opts) \<and>
     errorMessage opts \<in> {errorMessage b, Some msg_file_dest, Some msg_one_response, Some msg_no_input,
        Some msg_file_webhook, Some msg_file_store}"
  by (simp add: toFile_def Let_def)

lemma toBuffer_message:
  "typeof cb = ''function'' \<Longrightarrow>
   \<exists>opts. toBuffer env cb b = Inr (opts, sendRequest env (forward3 cb) opts) \<and>
     errorMessage opts \<in> {errorMessage b, Some msg_one_response, Some msg_no_input,
        Some msg_buffer_webhook, Some msg_buffer_store}"
  by (simp add: toBuffer_def Let_def)

section \<open>The sample requests, evaluated\<close>

lemmas builder_defs = chain_def new_options_def upload_def fetch_def proxy_def setter_defs
  toJSON_def toFile_def toBuffer_def get_prop_def Let_def

lemma json_job_eq:
  "json_job = \<lparr> key = ''key'', request = [(''url'', JStr ''https://x/in.jpg'')],
       errorMessage = None, proxy_opt = None, withUpload = False, withFetch = True,
       file_opt = JUndefined, toJSON_opt = True, toFile_opt = False, toBuffer_opt = False,
       outputFile = JUndefined \<rparr>"
  by (simp add: json_job_def builder_defs)

lemma buffer_job_eq:
  "buffer_job = \<lparr> key = ''key'',
       request = [(''url'', JStr ''https://x/in.jpg''), (''response'', JObj [(''mode'', JStr ''binary'')])],
       errorMessage = None, proxy_opt = None, withUpload = False, withFetch = True,
       file_opt = JUndefined, toJSON_opt = False, toFile_opt = False, toBuffer_opt = True,
       outputFile = JUndefined \<rparr>"
  by (simp add: buffer_job_def builder_defs)


lemmas run_defs = dispatch_def sendRequest_def issue_def transport_def file_part_def
  base_reqOptions_def sample_env_def returns_def handler_eqs on_response_def after_meta_def
  pipe_to_file_def collect_def meta_header_def parse_sample_def Buffer_call_def get_prop_def

section \<open>The state after the synchronous part\<close>

lemma issue_streamed:
  assumes "\<not> toJSON_opt opts" "post_throws env = None" "raised (issue env cb opts) = None"
  shows "\<not> called (issue env cb opts)" "calls (issue env cb opts) = []"
    "req_l (issue env cb opts)" "ws_l (issue env cb opts) = []" "res_l (issue env cb opts) = []"
    "Pipe \<notin> set (effects (issue env cb opts))" "Resume \<notin> set (effects (issue env cb opts))"
  using assms
  by (auto simp: issue_def split: sum.splits dest!: transport_fields)

lemma issue_no_sink:
  "ws_l (issue env cb opts) = []" "res_l (issue env cb opts) = []"
  "Pipe \<notin> set (effects (issue env cb opts))" "Resume \<notin> set (effects (issue env cb opts))"
  by (auto simp: issue_def split: sum.splits option.splits dest!: transport_fields)

lemma issue_json:
  assumes "toJSON_opt opts" "raised (issue env cb opts) = None"
  shows "\<not> called (issue env cb opts)" "post_l (issue env cb opts)"
  using assms
  by (auto simp: issue_def split: sum.splits option.splits dest!: transport_fields)

lemma not_called_no_calls: "one_shot s \<Longrightarrow> \<not> called s \<Longrightarrow> calls s = []"
  by (simp add: one_shot_def)



section \<open>Only a response wires the sink\<close>





lemma accepted_response:
  "parsed_meta env hdrs = Some meta \<Longrightarrow> member meta ''success'' = Inr v \<Longrightarrow> v \<noteq> JBool False \<Longrightarrow>
   on_response env cb opts hdrs s =
     (case (if toFile_opt opts then pipe_to_file opts meta s else Inr s) of
        Inl e \<Rightarrow> raise e s
      | Inr s1 \<Rightarrow> (let s2 = (if toBuffer_opt opts then collect meta s1 else s1)
                   in s2\<lparr>effects := effects s2 @ [Resume]\<rparr>))"
  by (auto simp: parsed_meta_def on_response_def after_meta_def split: option.splits)

section \<open>Chunks\<close>

lemma data_run:
  "foldl (\<lambda>s e. handle env cb opts e s) s (map ResData chunks) =
     s\<lparr>res_l := map (\<lambda>l. (fst l, snd l @ chunks)) (res_l s)\<rparr>"
proof (induction chunks arbitrary: s)
  case Nil
  show ?case by simp
next
  case (Cons c chunks)
  show ?case
    by (simp add: Cons.IH on_data_def case_prod_unfold comp_def)
qed

section \<open>What a chain of builder calls leaves behind\<close>

lemma apply_call_flags:
  "toJSON_opt (apply_call c b) = toJSON_opt b" "toFile_opt (apply_call c b) = toFile_opt b"
  "toBuffer_opt (apply_call c b) = toBuffer_opt b"
  "withUpload (apply_call c b) = (withUpload b \<or> is_Upload c)"
  "withFetch (apply_call c b) = (withFetch b \<or> is_Fetch c)"
  by (cases c; simp add: upload_def fetch_def proxy_def setter_defs Let_def split: jsval.split)+

lemma apply_call_both_aux:
  "withUpload b \<or> is_Upload c \<Longrightarrow> withFetch b \<or> is_Fetch c \<Longrightarrow>
   (withUpload b \<and> withFetch b \<longrightarrow> errorMessage b = Some msg_one_input) \<Longrightarrow>
   errorMessage (apply_call c b) = Some msg_one_input"
  by (cases c; auto simp: upload_def fetch_def proxy_def setter_defs Let_def split: jsval.split)

lemma apply_call_both:
  "withUpload (apply_call c b) \<Longrightarrow> withFetch (apply_call c b) \<Longrightarrow>
   (withUpload b \<and> withFetch b \<longrightarrow> errorMessage b = Some msg_one_input) \<Longrightarrow>
   errorMessage (apply_call c b) = Some msg_one_input"
  by (rule apply_call_both_aux) (simp_all add: apply_call_flags)

lemma chain_flags:
  "\<not> toJSON_opt (chain cs (new_options k))" "\<not> toFile_opt (chain cs (new_options k))"
  "\<not> toBuffer_opt (chain cs (new_options k))"
  "withUpload (chain cs (new_options k)) = list_ex is_Upload cs"
  "withFetch (chain cs (new_options k)) = list_ex is_Fetch cs"
  by (induction cs rule: rev_induct)
     (simp_all add: chain_snoc apply_call_flags, simp_all add: chain_def new_options_def)

lemma chain_both:
  "withUpload (chain cs (new_options k)) \<and> withFetch (chain cs (new_options k))
   \<longrightarrow> errorMessage (chain cs (new_options k)) = Some msg_one_input"
proof (induction cs rule: rev_induct)
  case Nil
  show ?case by (simp add: chain_def new_options_def)
next
  case (snoc c cs)
  then show ?case by (auto simp: chain_snoc intro: apply_call_both)
qed

lemma preflight_delivery:
  assumes "errorMessage opts = Some m" and "m \<noteq> []"
  shows "calls (sendRequest env cb opts) = [Cb (Some (Error (JStr m))) JUndefined JUndefined]"
    and "effects (sendRequest env cb opts) = []" and "quiet (sendRequest env cb opts)"
    and "raised (sendRequest env cb opts) = cb (Cb (Some (Error (JStr m))) JUndefined JUndefined)"
  using assms by (simp_all add: sendRequest_preflight quiet_invoke_initial)

lemma forward_function:
  "typeof c = ''function'' \<Longrightarrow> forward2 c a = None"
  "typeof c = ''function'' \<Longrightarrow> forward3 c a = None"
  by (cases a; simp add: call_function_def)+

lemma in_configuration_errors:
  "msg_upload_arg \<in> set configuration_errors" "msg_one_input \<in> set configuration_errors"
  "msg_fetch_arg \<in> set configuration_errors" "msg_json_cb \<in> set configuration_errors"
  "msg_one_response \<in> set configuration_errors" "msg_no_input \<in> set configuration_errors"
  "msg_file_dest \<in> set configuration_errors" "msg_file_webhook \<in> set configuration_errors"
  "msg_file_store \<in> set configuration_errors" "msg_buffer_webhook \<in> set configuration_errors"
  "msg_buffer_store \<in> set configuration_errors"
  by (simp_all add: configuration_errors_def)

lemma configuration_errors_nonempty: "m \<in> set configuration_errors \<Longrightarrow> m \<noteq> []"
  by (auto simp: configuration_errors_def msg_defs)

text \<open>The options a sink dispatches with, when the builder already carries a message.\<close>

lemma toJSON_with_message:
  "errorMessage b = Some m0 \<Longrightarrow> m0 \<in> set configuration_errors \<Longrightarrow>
   \<exists>opts m. toJSON env c b = (opts, sendRequest env (forward2 c) opts)
      \<and> errorMessage opts = Some m \<and> m \<in> set configuration_errors"
  by (simp add: toJSON_def Let_def in_configuration_errors)

lemma toFile_with_message:
  "typeof c = ''function'' \<Longrightarrow> errorMessage b = Some m0 \<Longrightarrow> m0 \<in> set configuration_errors \<Longrightarrow>
   \<exists>opts m. toFile env f c b = Inr (opts, sendRequest env (forward2 c) opts)
      \<and> errorMessage opts = Some m \<and> m \<in> set configuration_errors"
  by (simp add: toFile_def Let_def in_configuration_errors)

lemma toFile_bad_destination:
  "typeof c = ''function'' \<Longrightarrow> typeof f \<noteq> ''string'' \<Longrightarrow> \<not> instanceof_Stream f \<Longrightarrow>
   \<exists>opts m. toFile env f c b = Inr (opts, sendRequest env (forward2 c) opts)
      \<and> errorMessage opts = Some m \<and> m \<in> set configuration_errors"
  by (simp add: toFile_def Let_def in_configuration_errors)

lemma toBuffer_with_message:
  "typeof c = ''function'' \<Longrightarrow> errorMessage b = Some m0 \<Longrightarrow> m0 \<in> set configuration_errors \<Longrightarrow>
   \<exists>opts m. toBuffer env c b = Inr (opts, sendRequest env (forward3 c) opts)
      \<and> errorMessage opts = Some m \<and> m \<in> set configuration_errors"
  by (simp add: toBuffer_def Let_def in_configuration_errors)

lemma toJSON_no_input:
  "\<not> withUpload b \<Longrightarrow> \<not> withFetch b \<Longrightarrow>
   \<exists>opts. toJSON env c b = (opts, sendRequest env (forward2 c) opts)
      \<and> errorMessage opts = Some msg_no_input"
  by (simp add: toJSON_def Let_def)

lemma toFile_no_input:
  "typeof c = ''function'' \<Longrightarrow> \<not> withUpload b \<Longrightarrow> \<not> withFetch b \<Longrightarrow>
   \<exists>opts. toFile env f c b = Inr (opts, sendRequest env (forward2 c) opts)
      \<and> errorMessage opts =
          Some (if truthy (get_prop ''store'' (request b)) then msg_file_store
                else if truthy (get_prop ''webhook'' (request b)) then msg_file_webhook
                else msg_no_input)"
  by (simp add: toFile_def Let_def)

lemma toBuffer_no_input:
  "typeof c = ''function'' \<Longrightarrow> \<not> withUpload b \<Longrightarrow> \<not> withFetch b \<Longrightarrow>
   \<exists>opts. toBuffer env c b = Inr (opts, sendRequest env (forward3 c) opts)
      \<and> errorMessage opts =
          Some (if truthy (get_prop ''store'' (request b)) then msg_buffer_store
                else if truthy (get_prop ''webhook'' (request b)) then msg_buffer_webhook
                else msg_no_input)"
  by (simp add: toBuffer_def Let_def)

section \<open>Nothing else calls the callback\<close>

lemma after_meta_calls_only_on_failure:
  "called (after_meta cb opts meta s) \<Longrightarrow> \<not> called s \<Longrightarrow>
     member meta ''success'' = Inr (JBool False)"
  by (auto simp: after_meta_def pipe_to_file_def collect_def Let_def split: sum.splits if_splits)

lemma on_response_calls_only_rejected:
  "called (on_response env cb opts hdrs s) \<Longrightarrow> \<not> called s \<Longrightarrow> rejects env hdrs"
  by (auto simp: on_response_def rejects_def get_prop_def
           dest!: after_meta_calls_only_on_failure split: option.splits)

lemma called_only_by:
  "called (handle env cb opts e s) \<Longrightarrow> \<not> called s \<Longrightarrow>
     is_FileError e \<and> file_l s \<or> is_PostDone e \<and> post_l s \<or> is_ReqError e \<and> req_l s
   \<or> is_rejected env e \<and> req_l s \<or> is_WsEvent e \<and> ws_l s \<noteq> [] \<or> is_ResEnd e \<and> res_l s \<noteq> []"
  by (cases e)
     (auto simp: handler_eqs dest: on_response_calls_only_rejected split: if_splits list.splits)

lemma after_meta_wires:
  "file_l (after_meta cb opts meta s) = file_l s"
  "post_l (after_meta cb opts meta s) = post_l s"
  "req_l (after_meta cb opts meta s) = req_l s"
  "ws_l (after_meta cb opts meta s) \<noteq> [] \<Longrightarrow> ws_l s \<noteq> [] \<or> toFile_opt opts"
  "res_l (after_meta cb opts meta s) \<noteq> [] \<Longrightarrow> res_l s \<noteq> [] \<or> toBuffer_opt opts"
  by (auto simp: after_meta_def pipe_to_file_def collect_def Let_def split: sum.splits if_splits)

lemma on_response_wires:
  "file_l (on_response env cb opts hdrs s) = file_l s"
  "post_l (on_response env cb opts hdrs s) = post_l s"
  "req_l (on_response env cb opts hdrs s) = req_l s"
  "ws_l (on_response env cb opts hdrs s) \<noteq> [] \<Longrightarrow> ws_l s \<noteq> [] \<or> toFile_opt opts"
  "res_l (on_response env cb opts hdrs s) \<noteq> [] \<Longrightarrow> res_l s \<noteq> [] \<or> toBuffer_opt opts"
  by (auto simp: on_response_def after_meta_wires split: option.splits if_splits
        dest: after_meta_wires(4,5))

lemma handle_wires:
  "file_l (handle env cb opts e s) = file_l s"
  "post_l (handle env cb opts e s) = post_l s"
  "req_l (handle env cb opts e s) = req_l s"
  "ws_l (handle env cb opts e s) \<noteq> [] \<Longrightarrow> ws_l s \<noteq> [] \<or> is_Response e \<and> req_l s \<and> toFile_opt opts"
  "res_l (handle env cb opts e s) \<noteq> [] \<Longrightarrow> res_l s \<noteq> [] \<or> is_Response e \<and> req_l s \<and> toBuffer_opt opts"
  by (cases e; auto simp: handler_eqs on_response_wires split: list.splits if_splits
        dest: on_response_wires(4,5))+

lemma response_then_append:
  "response_then P (xs @ ys) =
     (response_then P xs \<or> list_ex is_Response xs \<and> list_ex P ys \<or> response_then P ys)"
  by (induction xs) auto

lemma settled_snoc: "settled env opts evs \<Longrightarrow> settled env opts (evs @ [e])"
  by (auto simp: settled_def response_then_append split: if_splits)

lemma issue_wires:
  "file_l (issue env cb opts) \<Longrightarrow> withUpload opts"
  "post_l (issue env cb opts) \<Longrightarrow> toJSON_opt opts"
  "req_l (issue env cb opts) \<Longrightarrow> \<not> toJSON_opt opts"
  "called (issue env cb opts) \<Longrightarrow> \<not> toJSON_opt opts \<and> post_throws env \<noteq> None"
  by (auto simp: issue_def split: sum.splits option.splits if_splits dest!: transport_fields)

lemma called_only_when_settled:
  "(called (foldl (\<lambda>s e. handle env cb opts e s) (issue env cb opts) evs) \<longrightarrow> settled env opts evs)
   \<and> (ws_l (foldl (\<lambda>s e. handle env cb opts e s) (issue env cb opts) evs) \<noteq> []
        \<longrightarrow> \<not> toJSON_opt opts \<and> toFile_opt opts \<and> list_ex is_Response evs)
   \<and> (res_l (foldl (\<lambda>s e. handle env cb opts e s) (issue env cb opts) evs) \<noteq> []
        \<longrightarrow> \<not> toJSON_opt opts \<and> toBuffer_opt opts \<and> list_ex is_Response evs)
   \<and> file_l (foldl (\<lambda>s e. handle env cb opts e s) (issue env cb opts) evs) = file_l (issue env cb opts)
   \<and> post_l (foldl (\<lambda>s e. handle env cb opts e s) (issue env cb opts) evs) = post_l (issue env cb opts)
   \<and> req_l (foldl (\<lambda>s e. handle env cb opts e s) (issue env cb opts) evs) = req_l (issue env cb opts)"
proof (induction evs rule: rev_induct)
  case Nil
  show ?case using issue_wires(4) [of env cb opts]
    by (auto simp: issue_no_sink settled_def)
next
  case (snoc e evs)
  let ?s = "foldl (\<lambda>s e. handle env cb opts e s) (issue env cb opts) evs"
  let ?t = "handle env cb opts e ?s"
  note w = issue_wires [of env cb opts]
  have l: "file_l ?t = file_l (issue env cb opts)" "post_l ?t = post_l (issue env cb opts)"
      "req_l ?t = req_l (issue env cb opts)"
    using snoc by (simp_all add: handle_wires)
  have ws: "\<not> toJSON_opt opts \<and> toFile_opt opts \<and> list_ex is_Response (evs @ [e])"
    if "ws_l ?t \<noteq> []"
    using handle_wires(4) [OF that] snoc w(3) by auto
  have res: "\<not> toJSON_opt opts \<and> toBuffer_opt opts \<and> list_ex is_Response (evs @ [e])"
    if "res_l ?t \<noteq> []"
    using handle_wires(5) [OF that] snoc w(3) by auto
  have "settled env opts (evs @ [e])" if c: "called ?t"
  proof (cases "called ?s")
    case True
    with snoc show ?thesis by (simp add: settled_snoc)
  next
    case False
    from called_only_by [OF c False] snoc w(1,2,3) show ?thesis
      by (auto simp: settled_def response_then_append)
  qed
  with l ws res show ?case by simp
qed

lemma unsettled_not_called:
  assumes "\<not> settled env opts evs"
  shows "calls (dispatch env cb opts evs) = []"
proof -
  from assms have no_msg: "\<not> string_set (errorMessage opts)" by (simp add: settled_def)
  then have d: "dispatch env cb opts evs = foldl (\<lambda>s e. handle env cb opts e s) (issue env cb opts) evs"
    by (simp add: dispatch_def sendRequest_issue)
  have "\<not> called (dispatch env cb opts evs)"
    using called_only_when_settled [of env cb opts evs] assms by (simp add: d)
  moreover have "one_shot (dispatch env cb opts evs)"
    using dispatch_one_shot_or_preflight [of opts env cb evs] no_msg by simp
  ultimately show ?thesis by (simp add: one_shot_def)
qed

section \<open>The claims about the dispatcher\<close>

text \<open>
  C1 (amended). For every dispatch (every options record, every callback, every behaviour of
  the environment) and every list of events in any order, the callback passed to
  \<^verbatim>\<open>sendRequest\<close> is called at most once: no code path calls it a second time. It is
  called exactly once whenever no exception escaped and the dispatch is settled, that is, an
  error message was set before dispatch, or the events contain one that ends the request: an
  error of the upload source, the completion of a JSON request, and for a streamed request a
  synchronous failure to post, a request error, a rejected response, or a response followed by
  the end of (or an error on) the destination for \<^verbatim>\<open>toFile\<close>, by the end of the body for
  \<^verbatim>\<open>toBuffer\<close>. As long as the dispatch is not settled the callback has not been called.
\<close>

theorem callback_at_most_once_and_once_when_settled:
  "length (calls (dispatch env cb opts evs)) \<le> 1
   \<and> (settled env opts evs \<and> raised (dispatch env cb opts evs) = None
        \<longrightarrow> length (calls (dispatch env cb opts evs)) = 1)
   \<and> (\<not> settled env opts evs' \<longrightarrow> calls (dispatch env cb opts evs') = [])"
  using at_most_once [of env cb opts evs] settled_exactly_once [of env opts evs cb]
    unsettled_not_called [of env opts evs' cb]
  by blast

theorem callback_at_most_once_and_once_when_settled_witness:
  \<open>settled sample_env buffer_job
      [Response (Some [(''x-optidash-meta'', ''{"success":true}'')]), ResData [1, 2, 3], ResEnd]
   \<and> raised (dispatch sample_env returns buffer_job
      [Response (Some [(''x-optidash-meta'', ''{"success":true}'')]), ResData [1, 2, 3], ResEnd]) = None
   \<and> length (calls (dispatch sample_env returns buffer_job
      [Response (Some [(''x-optidash-meta'', ''{"success":true}'')]), ResData [1, 2, 3], ResEnd])) = 1
   \<and> \<not> settled sample_env buffer_job [ResEnd, Response (Some [(''x-optidash-meta'', ''{}'')]), WsFinish]
   \<and> calls (dispatch sample_env returns buffer_job
        [ResEnd, Response (Some [(''x-optidash-meta'', ''{}'')]), WsFinish]) = []\<close>
  using callback_at_most_once_and_once_when_settled [of sample_env returns buffer_job
      \<open>[Response (Some [(''x-optidash-meta'', ''{"success":true}'')]), ResData [1, 2, 3], ResEnd]\<close>
      \<open>[ResEnd, Response (Some [(''x-optidash-meta'', ''{}'')]), WsFinish]\<close>]
  by (simp add: buffer_job_eq run_defs settled_def rejects_def)

text \<open>
  C1 as stated fails: \<^verbatim>\<open>fetch(url).toBuffer(fn)\<close>, the response headers and a first chunk
  of the body arrive and nothing follows. No timeout is configured, and the callback has not
  been called.
\<close>

theorem callback_exactly_once_counterexample:
  "length (calls (dispatch sample_env returns buffer_job [Response (Some []), ResData [1, 2, 3]])) \<noteq> 1"
  by (simp add: buffer_job_eq run_defs)

text \<open>
  C2. Whenever a terminal sink, called on a builder that a chain of calls has produced,
  dispatches with \<^verbatim>\<open>errorMessage\<close> set, \<^verbatim>\<open>sendRequest\<close> calls its callback once with an
  error carrying exactly that message and with no other argument, and returns at once: no
  HTTP request is built or posted, no file is opened, no listener is registered, and no later
  event changes anything.
\<close>

theorem preflight_error_before_any_request:
  assumes "run_sink env t (chain cs (new_options k)) = Inr (opts, d)"
    and "errorMessage opts = Some m"
  shows "calls (sendRequest env cb opts) = [Cb (Some (Error (JStr m))) JUndefined JUndefined]
       \<and> effects (sendRequest env cb opts) = [] \<and> quiet (sendRequest env cb opts)
       \<and> dispatch env cb opts evs = sendRequest env cb opts
       \<and> calls d = [Cb (Some (Error (JStr m))) JUndefined JUndefined]
       \<and> effects d = [] \<and> quiet d"
proof -
  let ?b = "chain cs (new_options k)"
  have b: "errorMessage ?b \<noteq> Some []" by (rule chain_message_nonempty)
  have "m \<noteq> [] \<and> (\<exists>f. d = sendRequest env f opts)"
  proof (cases t)
    case (ToJSON c)
    with assms toJSON_message [of env c ?b] b show ?thesis
      by (auto simp: msgs_nonempty)
  next
    case (ToFile f c)
    with assms have "typeof c = ''function''" by (auto simp: toFile_def split: if_splits)
    with ToFile assms toFile_message [of c env f ?b] b show ?thesis
      by (auto simp: msgs_nonempty)
  next
    case (ToBuffer c)
    with assms have "typeof c = ''function''" by (auto simp: toBuffer_def split: if_splits)
    with ToBuffer assms toBuffer_message [of c env ?b] b show ?thesis
      by (auto simp: msgs_nonempty)
  qed
  then obtain f where m: "m \<noteq> []" and d: "d = sendRequest env f opts" by blast
  from assms(2) m show ?thesis
    by (simp add: d sendRequest_preflight dispatch_preflight quiet_invoke_initial)
qed

theorem preflight_error_before_any_request_witness:
  "run_sink sample_env (ToBuffer (JFun 0))
      (chain [Fetch (JStr ''https://x/in.jpg''), Webhook (JObj [(''url'', JStr ''https://x/hook'')])]
         (new_options ''key''))
     = Inr (fst (projr (run_sink sample_env (ToBuffer (JFun 0))
            (chain [Fetch (JStr ''https://x/in.jpg''), Webhook (JObj [(''url'', JStr ''https://x/hook'')])]
               (new_options ''key'')))), snd (projr (run_sink sample_env (ToBuffer (JFun 0))
            (chain [Fetch (JStr ''https://x/in.jpg''), Webhook (JObj [(''url'', JStr ''https://x/hook'')])]
               (new_options ''key'')))))
   \<and> errorMessage (fst (projr (run_sink sample_env (ToBuffer (JFun 0))
            (chain [Fetch (JStr ''https://x/in.jpg''), Webhook (JObj [(''url'', JStr ''https://x/hook'')])]
               (new_options ''key''))))) = Some msg_buffer_webhook
   \<and> calls (snd (projr (run_sink sample_env (ToBuffer (JFun 0))
            (chain [Fetch (JStr ''https://x/in.jpg''), Webhook (JObj [(''url'', JStr ''https://x/hook'')])]
               (new_options ''key''))))) = [Cb (Some (Error (JStr msg_buffer_webhook))) JUndefined JUndefined]
   \<and> effects (snd (projr (run_sink sample_env (ToBuffer (JFun 0))
            (chain [Fetch (JStr ''https://x/in.jpg''), Webhook (JObj [(''url'', JStr ''https://x/hook'')])]
               (new_options ''key''))))) = []
   \<and> calls (sendRequest sample_env returns (fst (projr (run_sink sample_env (ToBuffer (JFun 0))
            (chain [Fetch (JStr ''https://x/in.jpg''), Webhook (JObj [(''url'', JStr ''https://x/hook'')])]
               (new_options ''key''))))))
       = [Cb (Some (Error (JStr msg_buffer_webhook))) JUndefined JUndefined]
   \<and> effects (sendRequest sample_env returns (fst (projr (run_sink sample_env (ToBuffer (JFun 0))
            (chain [Fetch (JStr ''https://x/in.jpg''), Webhook (JObj [(''url'', JStr ''https://x/hook'')])]
               (new_options ''key'')))))) = []
   \<and> dispatch sample_env returns (fst (projr (run_sink sample_env (ToBuffer (JFun 0))
            (chain [Fetch (JStr ''https://x/in.jpg''), Webhook (JObj [(''url'', JStr ''https://x/hook'')])]
               (new_options ''key''))))) [ReqError (Failure ''ECONNRESET'')]
       = sendRequest sample_env returns (fst (projr (run_sink sample_env (ToBuffer (JFun 0))
            (chain [Fetch (JStr ''https://x/in.jpg''), Webhook (JObj [(''url'', JStr ''https://x/hook'')])]
               (new_options ''key'')))))"
  using preflight_error_before_any_request [of sample_env "ToBuffer (JFun 0)"
      "[Fetch (JStr ''https://x/in.jpg''), Webhook (JObj [(''url'', JStr ''https://x/hook'')])]"
      "''key''" "fst (projr (run_sink sample_env (ToBuffer (JFun 0))
            (chain [Fetch (JStr ''https://x/in.jpg''), Webhook (JObj [(''url'', JStr ''https://x/hook'')])]
               (new_options ''key''))))" "snd (projr (run_sink sample_env (ToBuffer (JFun 0))
            (chain [Fetch (JStr ''https://x/in.jpg''), Webhook (JObj [(''url'', JStr ''https://x/hook'')])]
               (new_options ''key''))))" msg_buffer_webhook returns
      "[ReqError (Failure ''ECONNRESET'')]"]
  by (simp add: builder_defs)

text \<open>
  C7 (a defect of the code). An upload whose source is a buffer does not get a file name:
  the code calls \<^verbatim>\<open>toSting\<close>, which no buffer has, so \<^verbatim>\<open>sendRequest\<close> raises a
  \<^verbatim>\<open>TypeError\<close> before any request is built and without calling the callback.
\<close>

theorem buffer_upload_raises:
  "sendRequest sample_env returns buffer_upload_job
     = initial\<lparr>raised := Some (TypeError ''toSting is not a function'')\<rparr>
   \<and> calls (dispatch sample_env returns buffer_upload_job [PostDone None (JObj [(''success'', JBool True)])]) = []"
  by (simp add: buffer_upload_job_def new_options_def run_defs raise_def)

text \<open>
  C3 (amended). In a JSON-sink dispatch whose callback has not been called yet, the completion
  of the request with \<^verbatim>\<open>(err, res, body)\<close> calls the callback once. When \<^verbatim>\<open>body\<close> is
  truthy and has a truthy \<^verbatim>\<open>message\<close> field, whatever its \<^verbatim>\<open>success\<close> flag, the callback
  receives an error built from that message field, and the whole body as metadata; so a body
  with \<^verbatim>\<open>success\<close> false and a non-empty message string yields an error with exactly that
  message. For every other body the callback receives the transport's own \<^verbatim>\<open>err\<close> and the
  body as metadata: no error is derived from the body.
\<close>

theorem json_sink_message_field_decides:
  assumes "toJSON_opt opts" and "\<not> string_set (errorMessage opts)"
    and "raised (sendRequest env cb opts) = None"
    and "\<not> called (dispatch env cb opts pre)"
  shows "calls (dispatch env cb opts (pre @ [PostDone err body])) =
           [if truthy body \<and> truthy (read_prop body ''message'')
            then Cb (Some (Error (read_prop body ''message''))) body JUndefined
            else Cb err body JUndefined]
       \<and> (body = JObj ps \<and> get_prop ''success'' ps = JBool False
            \<and> get_prop ''message'' ps = JStr m \<and> m \<noteq> []
          \<longrightarrow> calls (dispatch env cb opts (pre @ [PostDone err body])) =
                [Cb (Some (Error (JStr m))) body JUndefined])"
proof -
  let ?s = "dispatch env cb opts pre"
  have s0: "sendRequest env cb opts = issue env cb opts"
    using assms(2) by (rule sendRequest_issue)
  have d: "dispatch env cb opts es = foldl (\<lambda>s e. handle env cb opts e s) (issue env cb opts) es" for es
    by (simp add: dispatch_def s0)
  have "post_l (issue env cb opts)" using assms(1,3) s0 by (simp add: issue_json)
  then have post: "post_l ?s" unfolding d by (rule run_mono)
  have "one_shot ?s" unfolding d by (intro one_shot_run one_shot_issue)
  then have none: "calls ?s = []" using assms(4) by (rule not_called_no_calls)
  have "dispatch env cb opts (pre @ [PostDone err body]) = on_post_done cb err body ?s"
    using post by (simp add: d)
  then show ?thesis using assms(4) none by (auto simp: on_post_done_def)
qed

theorem json_sink_message_field_decides_witness:
  "toJSON_opt json_job \<and> \<not> string_set (errorMessage json_job)
   \<and> raised (sendRequest sample_env returns json_job) = None
   \<and> \<not> called (dispatch sample_env returns json_job [])
   \<and> calls (dispatch sample_env returns json_job
        [PostDone None (JObj [(''success'', JBool False), (''message'', JStr ''bad input'')])])
      = [Cb (Some (Error (JStr ''bad input'')))
           (JObj [(''success'', JBool False), (''message'', JStr ''bad input'')]) JUndefined]
   \<and> calls (dispatch sample_env returns json_job
        [PostDone None (JObj [(''success'', JBool True), (''output'', JObj [(''url'', JStr ''https://x/y.jpg'')])])])
      = [Cb None (JObj [(''success'', JBool True), (''output'', JObj [(''url'', JStr ''https://x/y.jpg'')])])
           JUndefined]"
  using json_sink_message_field_decides [of json_job sample_env returns "[]" None
      "JObj [(''success'', JBool False), (''message'', JStr ''bad input'')]"
      "[(''success'', JBool False), (''message'', JStr ''bad input'')]" "''bad input''"]
    json_sink_message_field_decides [of json_job sample_env returns "[]" None
      "JObj [(''success'', JBool True), (''output'', JObj [(''url'', JStr ''https://x/y.jpg'')])]"
      "[]" "''x''"]
  by (simp add: json_job_eq run_defs)

text \<open>
  C3 as stated fails in both directions. A body with \<^verbatim>\<open>success\<close> true and a message does
  not indicate failure, yet the callback receives an error made from it; a body with
  \<^verbatim>\<open>success\<close> false and an empty message indicates failure, yet the callback receives no
  error.
\<close>

theorem json_sink_success_flag_counterexample:
  "calls (dispatch sample_env returns json_job
      [PostDone None (JObj [(''success'', JBool True), (''message'', JStr ''done'')])])
     = [Cb (Some (Error (JStr ''done'')))
          (JObj [(''success'', JBool True), (''message'', JStr ''done'')]) JUndefined]
   \<and> calls (dispatch sample_env returns json_job
      [PostDone None (JObj [(''success'', JBool False), (''message'', JStr [])])])
     = [Cb None (JObj [(''success'', JBool False), (''message'', JStr [])]) JUndefined]"
  by (simp add: json_job_eq run_defs)

text \<open>
  C9. In a \<^verbatim>\<open>toBuffer\<close> dispatch that meets no error, with a response whose metadata is
  not a failure, the chunks of the body are collected in the order they arrive, and at the
  end of the body the callback is called once with \<^verbatim>\<open>null\<close>, the metadata and the
  concatenation of all chunks in that order. With the header \<^verbatim>\<open>{"success":true}\<close> and the
  body bytes 1, 2, 3 it receives \<^verbatim>\<open>(null, {success: true}, Buffer([1, 2, 3]))\<close>.
\<close>

theorem buffer_sink_concatenates_chunks:
  assumes "toBuffer_opt opts" and "\<not> toJSON_opt opts" and "\<not> toFile_opt opts"
    and "\<not> string_set (errorMessage opts)"
    and "post_throws env = None" and "raised (sendRequest env cb opts) = None"
    and "parsed_meta env hdrs = Some meta"
    and "member meta ''success'' = Inr v" and "v \<noteq> JBool False"
  shows "calls (dispatch env cb opts (Response hdrs # map ResData chunks @ [ResEnd]))
           = [Cb None meta (JBuffer (concat chunks))]"
proof -
  let ?s0 = "issue env cb opts"
  have s0: "sendRequest env cb opts = ?s0"
    using assms(4) by (rule sendRequest_issue)
  note i = issue_streamed [OF assms(2) assms(5) assms(6) [unfolded s0]]
  let ?s1 = "on_response env cb opts hdrs ?s0"
  have s1: "?s1 = (collect meta ?s0)\<lparr>effects := effects ?s0 @ [Resume]\<rparr>"
    using assms(1,3) by (simp add: accepted_response [OF assms(7,8,9)] collect_def)
  let ?s2 = "foldl (\<lambda>s e. handle env cb opts e s) ?s1 (map ResData chunks)"
  have s2: "res_l ?s2 = [(meta, chunks)]" "\<not> called ?s2" "calls ?s2 = []"
    using i by (simp_all add: data_run s1 collect_def)
  have "dispatch env cb opts (Response hdrs # map ResData chunks @ [ResEnd]) = on_end cb ?s2"
    using i(3) by (simp add: dispatch_def s0)
  then show ?thesis using s2 by (simp add: on_end_eq)
qed

theorem buffer_sink_concatenates_chunks_witness:
  \<open>toBuffer_opt buffer_job \<and> \<not> toJSON_opt buffer_job \<and> \<not> toFile_opt buffer_job
   \<and> \<not> string_set (errorMessage buffer_job) \<and> post_throws sample_env = None
   \<and> raised (sendRequest sample_env returns buffer_job) = None
   \<and> parsed_meta sample_env (Some [(''x-optidash-meta'', ''{"success":true}'')])
       = Some (JObj [(''success'', JBool True)])
   \<and> member (JObj [(''success'', JBool True)]) ''success'' = Inr (JBool True)
   \<and> calls (dispatch sample_env returns buffer_job
        [Response (Some [(''x-optidash-meta'', ''{"success":true}'')]),
         ResData [1], ResData [2, 3], ResEnd])
      = [Cb None (JObj [(''success'', JBool True)]) (JBuffer [1, 2, 3])]\<close>
  using buffer_sink_concatenates_chunks [of buffer_job sample_env returns
      \<open>Some [(''x-optidash-meta'', ''{"success":true}'')]\<close> "JObj [(''success'', JBool True)]"
      "JBool True" "[[1], [2, 3]]"]
  by (simp add: buffer_job_eq run_defs parsed_meta_def)







section \<open>The claims about the builder and the sinks\<close>

text \<open>
  C5. On every builder on which both \<^verbatim>\<open>upload\<close> and \<^verbatim>\<open>fetch\<close> have been called, in
  either order and among any other calls, every terminal sink ends in a configuration error
  and never posts a request with one of the two transports: \<^verbatim>\<open>sendRequest\<close> calls the
  callback once with an error whose message is one of the configuration messages, and issues
  nothing. With a callback that is a function nothing is raised; the only way for a sink to
  raise at the call site is a callback that is not a function.
\<close>

theorem upload_and_fetch_is_configuration_error:
  assumes "list_ex is_Upload cs" and "list_ex is_Fetch cs"
  shows "case run_sink env t (chain cs (new_options k)) of
           Inl e \<Rightarrow> typeof (sink_callback t) \<noteq> ''function''
         | Inr (opts, d) \<Rightarrow>
             (\<exists>m \<in> set configuration_errors.
                 errorMessage opts = Some m
               \<and> calls d = [Cb (Some (Error (JStr m))) JUndefined JUndefined])
             \<and> effects d = [] \<and> quiet d
             \<and> (typeof (sink_callback t) = ''function'' \<longrightarrow> raised d = None)"
proof -
  let ?b = "chain cs (new_options k)"
  have b: "errorMessage ?b = Some msg_one_input"
    using chain_both [of cs k] assms by (simp add: chain_flags)
  note one = in_configuration_errors(2)
  show ?thesis
  proof (cases t)
    case (ToJSON c)
    from toJSON_with_message [OF b one, of env c] obtain opts m
      where r: "toJSON env c ?b = (opts, sendRequest env (forward2 c) opts)"
        and m: "errorMessage opts = Some m" "m \<in> set configuration_errors" by blast
    from m have "m \<noteq> []" by (simp add: configuration_errors_nonempty)
    with m show ?thesis
      by (simp add: ToJSON r preflight_delivery call_function_def)
  next
    case (ToFile f c)
    show ?thesis
    proof (cases "typeof c = ''function''")
      case True
      from toFile_with_message [OF True b one, of env f] obtain opts m
        where r: "toFile env f c ?b = Inr (opts, sendRequest env (forward2 c) opts)"
          and m: "errorMessage opts = Some m" "m \<in> set configuration_errors" by blast
      from m have "m \<noteq> []" by (simp add: configuration_errors_nonempty)
      with m True show ?thesis
        by (simp add: ToFile r preflight_delivery call_function_def)
    next
      case False
      then show ?thesis by (simp add: ToFile toFile_def)
    qed
  next
    case (ToBuffer c)
    show ?thesis
    proof (cases "typeof c = ''function''")
      case True
      from toBuffer_with_message [OF True b one, of env] obtain opts m
        where r: "toBuffer env c ?b = Inr (opts, sendRequest env (forward3 c) opts)"
          and m: "errorMessage opts = Some m" "m \<in> set configuration_errors" by blast
      from m have "m \<noteq> []" by (simp add: configuration_errors_nonempty)
      with m True show ?thesis
        by (simp add: ToBuffer r preflight_delivery call_function_def)
    next
      case False
      then show ?thesis by (simp add: ToBuffer toBuffer_def)
    qed
  qed
qed

theorem upload_and_fetch_is_configuration_error_witness:
  "list_ex is_Upload [Upload (JStr ''in.jpg''), Resize (JObj [(''width'', JNum 100)]), Fetch (JStr ''https://x/in.jpg'')]
   \<and> list_ex is_Fetch [Upload (JStr ''in.jpg''), Resize (JObj [(''width'', JNum 100)]), Fetch (JStr ''https://x/in.jpg'')]
   \<and> typeof (sink_callback (ToJSON (JFun 0))) = ''function''
   \<and> calls (snd (projr (run_sink sample_env (ToJSON (JFun 0))
        (chain [Upload (JStr ''in.jpg''), Resize (JObj [(''width'', JNum 100)]), Fetch (JStr ''https://x/in.jpg'')]
           (new_options ''key'')))))
      = [Cb (Some (Error (JStr msg_one_input))) JUndefined JUndefined]
   \<and> raised (snd (projr (run_sink sample_env (ToJSON (JFun 0))
        (chain [Upload (JStr ''in.jpg''), Resize (JObj [(''width'', JNum 100)]), Fetch (JStr ''https://x/in.jpg'')]
           (new_options ''key''))))) = None
   \<and> list_ex is_Upload [Fetch (JStr ''https://x/in.jpg''), Upload (JStr ''in.jpg'')]
   \<and> list_ex is_Fetch [Fetch (JStr ''https://x/in.jpg''), Upload (JStr ''in.jpg'')]
   \<and> calls (snd (projr (run_sink sample_env (ToFile (JStr ''out.jpg'') (JFun 0))
        (chain [Fetch (JStr ''https://x/in.jpg''), Upload (JStr ''in.jpg'')] (new_options ''key'')))))
      = [Cb (Some (Error (JStr msg_one_input))) JUndefined JUndefined]
   \<and> effects (snd (projr (run_sink sample_env (ToFile (JStr ''out.jpg'') (JFun 0))
        (chain [Fetch (JStr ''https://x/in.jpg''), Upload (JStr ''in.jpg'')] (new_options ''key''))))) = []"
  using upload_and_fetch_is_configuration_error
      [where cs = "[Upload (JStr ''in.jpg''), Resize (JObj [(''width'', JNum 100)]), Fetch (JStr ''https://x/in.jpg'')]"
         and env = sample_env and t = "ToJSON (JFun 0)" and k = "''key''"]
    upload_and_fetch_is_configuration_error
      [where cs = "[Fetch (JStr ''https://x/in.jpg''), Upload (JStr ''in.jpg'')]"
         and env = sample_env and t = "ToFile (JStr ''out.jpg'') (JFun 0)" and k = "''key''"]
  by (simp add: builder_defs sendRequest_def call_function_def msgs_nonempty)

text \<open>
  C6 (amended). On every builder on which neither \<^verbatim>\<open>upload\<close> nor \<^verbatim>\<open>fetch\<close> has been
  called, every terminal sink called with a function ends in a configuration error delivered
  through the callback, and no request is issued. The message is the one about the missing
  file input for \<^verbatim>\<open>toJSON\<close>, and for \<^verbatim>\<open>toFile\<close> and \<^verbatim>\<open>toBuffer\<close> when neither a
  webhook nor an external store is configured; when one of them is configured, \<^verbatim>\<open>toFile\<close>
  and \<^verbatim>\<open>toBuffer\<close> report instead that binary responses do not go with it (the store
  first).
\<close>

theorem no_input_is_configuration_error:
  assumes "\<not> list_ex is_Upload cs" and "\<not> list_ex is_Fetch cs"
    and "typeof (sink_callback t) = ''function''"
    and "b = chain cs (new_options k)"
  shows "\<exists>opts d. run_sink env t b = Inr (opts, d)
       \<and> calls d =
           [Cb (Some (Error (JStr
              (case t of
                 ToJSON c \<Rightarrow> msg_no_input
               | ToFile f c \<Rightarrow>
                   if truthy (get_prop ''store'' (request b)) then msg_file_store
                   else if truthy (get_prop ''webhook'' (request b)) then msg_file_webhook
                   else msg_no_input
               | ToBuffer c \<Rightarrow>
                   if truthy (get_prop ''store'' (request b)) then msg_buffer_store
                   else if truthy (get_prop ''webhook'' (request b)) then msg_buffer_webhook
                   else msg_no_input))))
              JUndefined JUndefined]
       \<and> raised d = None \<and> effects d = [] \<and> quiet d"
proof -
  have nu: "\<not> withUpload b" and nf: "\<not> withFetch b"
    using assms by (simp_all add: chain_flags)
  show ?thesis
  proof (cases t)
    case (ToJSON c)
    from toJSON_no_input [OF nu nf, of env c] obtain opts
      where r: "toJSON env c b = (opts, sendRequest env (forward2 c) opts)"
        and m: "errorMessage opts = Some msg_no_input" by blast
    from assms(3) ToJSON have c: "typeof c = ''function''" by simp
    show ?thesis
      by (simp add: ToJSON r preflight_delivery [OF m] msgs_nonempty call_function_def c)
  next
    case (ToFile f c)
    from assms(3) ToFile have c: "typeof c = ''function''" by simp
    from toFile_no_input [OF c nu nf, of env f] obtain opts m
      where r: "toFile env f c b = Inr (opts, sendRequest env (forward2 c) opts)"
        and m: "errorMessage opts = Some m"
        and m_def: "m = (if truthy (get_prop ''store'' (request b)) then msg_file_store
                else if truthy (get_prop ''webhook'' (request b)) then msg_file_webhook
                else msg_no_input)" by blast
    have "m \<noteq> []" by (simp add: m_def msgs_nonempty)
    from preflight_delivery [OF m this] show ?thesis
      by (simp add: ToFile r call_function_def c m_def)
  next
    case (ToBuffer c)
    from assms(3) ToBuffer have c: "typeof c = ''function''" by simp
    from toBuffer_no_input [OF c nu nf, of env] obtain opts m
      where r: "toBuffer env c b = Inr (opts, sendRequest env (forward3 c) opts)"
        and m: "errorMessage opts = Some m"
        and m_def: "m = (if truthy (get_prop ''store'' (request b)) then msg_buffer_store
                else if truthy (get_prop ''webhook'' (request b)) then msg_buffer_webhook
                else msg_no_input)" by blast
    have "m \<noteq> []" by (simp add: m_def msgs_nonempty)
    from preflight_delivery [OF m this] show ?thesis
      by (simp add: ToBuffer r call_function_def c m_def)
  qed
qed

theorem no_input_is_configuration_error_witness:
  "\<not> list_ex is_Upload [Resize (JObj [(''width'', JNum 100)])]
   \<and> \<not> list_ex is_Fetch [Resize (JObj [(''width'', JNum 100)])]
   \<and> typeof (sink_callback (ToFile (JStr ''out.jpg'') (JFun 0))) = ''function''
   \<and> calls (snd (projr (run_sink sample_env (ToFile (JStr ''out.jpg'') (JFun 0))
        (chain [Resize (JObj [(''width'', JNum 100)])] (new_options ''key'')))))
      = [Cb (Some (Error (JStr msg_no_input))) JUndefined JUndefined]"
  using no_input_is_configuration_error
      [where cs = "[Resize (JObj [(''width'', JNum 100)])]" and t = "ToFile (JStr ''out.jpg'') (JFun 0)"
         and b = "chain [Resize (JObj [(''width'', JNum 100)])] (new_options ''key'')"
         and k = "''key''" and env = sample_env]
  by (auto simp: builder_defs)

text \<open>
  C6 as stated fails: with a webhook configured and no input, \<^verbatim>\<open>toBuffer\<close> reports that
  binary responses do not go with webhooks, and says nothing of the missing file input.
\<close>

theorem no_input_message_counterexample:
  "calls (snd (projr (run_sink sample_env (ToBuffer (JFun 0))
      (chain [Webhook (JObj [(''url'', JStr ''https://x/hook'')])] (new_options ''key'')))))
     = [Cb (Some (Error (JStr ''Binary responses with toBuffer(fn) method are not supported when using Webhooks'')))
          JUndefined JUndefined]
   \<and> msg_no_input = ''No file input has been specified: upload(string|stream) or fetch(string)''"
  by (simp add: builder_defs sendRequest_def msg_defs)

text \<open>
  A sink called with a function hands \<^verbatim>\<open>sendRequest\<close> an arrow that returns, and the
  message it dispatches with is the builder's own or one of the configuration messages.
\<close>

lemma sink_dispatch:
  assumes "typeof (sink_callback t) = ''function''"
  shows "\<exists>opts cbf. run_sink env t b = Inr (opts, sendRequest env cbf opts) \<and> (\<forall>a. cbf a = None)
      \<and> (errorMessage opts = errorMessage b \<or> (\<exists>m \<in> set configuration_errors. errorMessage opts = Some m))"
proof (cases t)
  case (ToJSON c)
  from toJSON_message [of env c b] obtain opts
    where "toJSON env c b = (opts, sendRequest env (forward2 c) opts)"
      and "errorMessage opts \<in> {errorMessage b, Some msg_json_cb, Some msg_one_response, Some msg_no_input}"
    by blast
  with assms ToJSON show ?thesis
    by (intro exI [of _ opts] exI [of _ "forward2 c"])
       (auto simp: in_configuration_errors forward_function)
next
  case (ToFile f c)
  with assms have c: "typeof c = ''function''" by simp
  from toFile_message [OF c, of env f b] obtain opts
    where "toFile env f c b = Inr (opts, sendRequest env (forward2 c) opts)"
      and "errorMessage opts \<in> {errorMessage b, Some msg_file_dest, Some msg_one_response,
             Some msg_no_input, Some msg_file_webhook, Some msg_file_store}"
    by blast
  with c ToFile show ?thesis
    by (intro exI [of _ opts] exI [of _ "forward2 c"])
       (auto simp: in_configuration_errors forward_function)
next
  case (ToBuffer c)
  with assms have c: "typeof c = ''function''" by simp
  from toBuffer_message [OF c, of env b] obtain opts
    where "toBuffer env c b = Inr (opts, sendRequest env (forward3 c) opts)"
      and "errorMessage opts \<in> {errorMessage b, Some msg_one_response, Some msg_no_input,
             Some msg_buffer_webhook, Some msg_buffer_store}"
    by blast
  with c ToBuffer show ?thesis
    by (intro exI [of _ opts] exI [of _ "forward3 c"])
       (auto simp: in_configuration_errors forward_function)
qed

text \<open>
  C8 (amended). \<^verbatim>\<open>toFile\<close> and \<^verbatim>\<open>toBuffer\<close>, called with a callback that is not a
  function, raise their error at the call site, before any other check. A \<^verbatim>\<open>toFile\<close>
  destination that is neither a string nor a stream, passed with a function as callback,
  raises nothing: it is recorded in \<^verbatim>\<open>errorMessage\<close> and the callback receives a
  configuration error, with no request issued. The other configuration errors of a sink that
  is called with a function are delivered in the same way: on any builder, whenever the sink
  dispatches with \<^verbatim>\<open>errorMessage\<close> set to a non-empty message, nothing is raised and the
  callback receives an error with exactly that message; and on a builder that a chain of
  calls has produced, whenever \<^verbatim>\<open>errorMessage\<close> is set at all. (Nothing is said here of
  \<^verbatim>\<open>toJSON\<close> called with a value that is not a function.)
\<close>

theorem sink_argument_shape_errors:
  "(typeof cb \<noteq> ''function'' \<longrightarrow>
       toFile env f cb b = Inl (Error (JStr msg_file_cb))
     \<and> toBuffer env cb b = Inl (Error (JStr msg_buffer_cb)))
   \<and> (typeof cb' = ''function'' \<and> typeof f' \<noteq> ''string'' \<and> \<not> instanceof_Stream f' \<longrightarrow>
        (\<exists>opts d m. toFile env f' cb' b = Inr (opts, d) \<and> m \<in> set configuration_errors
           \<and> calls d = [Cb (Some (Error (JStr m))) JUndefined JUndefined]
           \<and> raised d = None \<and> effects d = [] \<and> quiet d))
   \<and> (typeof (sink_callback t) = ''function'' \<longrightarrow>
        (\<exists>opts d. run_sink env t b' = Inr (opts, d)
           \<and> (\<forall>m. errorMessage opts = Some m \<and> m \<noteq> [] \<longrightarrow>
                  calls d = [Cb (Some (Error (JStr m))) JUndefined JUndefined]
                \<and> raised d = None \<and> effects d = [] \<and> quiet d)))
   \<and> (typeof (sink_callback t') = ''function'' \<longrightarrow>
        (\<exists>opts d. run_sink env t' (chain cs (new_options k)) = Inr (opts, d)
           \<and> (\<forall>m. errorMessage opts = Some m \<longrightarrow>
                  calls d = [Cb (Some (Error (JStr m))) JUndefined JUndefined]
                \<and> raised d = None \<and> effects d = [] \<and> quiet d)))"
proof (intro conjI impI)
  assume "typeof cb \<noteq> ''function''"
  then show "toFile env f cb b = Inl (Error (JStr msg_file_cb))"
    and "toBuffer env cb b = Inl (Error (JStr msg_buffer_cb))"
    by (simp_all add: toFile_def toBuffer_def)
next
  assume a: "typeof cb' = ''function'' \<and> typeof f' \<noteq> ''string'' \<and> \<not> instanceof_Stream f'"
  then obtain opts m
    where r: "toFile env f' cb' b = Inr (opts, sendRequest env (forward2 cb') opts)"
      and m: "errorMessage opts = Some m" "m \<in> set configuration_errors"
    using toFile_bad_destination [of cb' f' env b] by blast
  from m have "m \<noteq> []" by (simp add: configuration_errors_nonempty)
  from preflight_delivery [OF m(1) this, of env "forward2 cb'"] a m(2) r
  show "\<exists>opts d m. toFile env f' cb' b = Inr (opts, d) \<and> m \<in> set configuration_errors
           \<and> calls d = [Cb (Some (Error (JStr m))) JUndefined JUndefined]
           \<and> raised d = None \<and> effects d = [] \<and> quiet d"
    by (auto simp: call_function_def)
next
  assume "typeof (sink_callback t) = ''function''"
  from sink_dispatch [OF this, of env b'] obtain opts cbf
    where r: "run_sink env t b' = Inr (opts, sendRequest env cbf opts)"
      and ret: "\<And>a. cbf a = None"
    by blast
  have "calls (sendRequest env cbf opts) = [Cb (Some (Error (JStr m))) JUndefined JUndefined]
      \<and> raised (sendRequest env cbf opts) = None \<and> effects (sendRequest env cbf opts) = []
      \<and> quiet (sendRequest env cbf opts)"
    if "errorMessage opts = Some m \<and> m \<noteq> []" for m
    using preflight_delivery [of opts m env cbf] ret that by simp
  with r show "\<exists>opts d. run_sink env t b' = Inr (opts, d)
           \<and> (\<forall>m. errorMessage opts = Some m \<and> m \<noteq> [] \<longrightarrow>
                  calls d = [Cb (Some (Error (JStr m))) JUndefined JUndefined]
                \<and> raised d = None \<and> effects d = [] \<and> quiet d)"
    by blast
next
  let ?b = "chain cs (new_options k)"
  assume "typeof (sink_callback t') = ''function''"
  from sink_dispatch [OF this, of env ?b] obtain opts cbf
    where r: "run_sink env t' ?b = Inr (opts, sendRequest env cbf opts)"
      and ret: "\<And>a. cbf a = None"
      and msg: "errorMessage opts = errorMessage ?b
          \<or> (\<exists>m \<in> set configuration_errors. errorMessage opts = Some m)"
    by blast
  have ne: "errorMessage opts \<noteq> Some []"
    using msg chain_message_nonempty [of cs k] by (auto dest: configuration_errors_nonempty)
  have "calls (sendRequest env cbf opts) = [Cb (Some (Error (JStr m))) JUndefined JUndefined]
      \<and> raised (sendRequest env cbf opts) = None \<and> effects (sendRequest env cbf opts) = []
      \<and> quiet (sendRequest env cbf opts)"
    if "errorMessage opts = Some m" for m
    using preflight_delivery [OF that, of env cbf] ne ret that by simp
  with r show "\<exists>opts d. run_sink env t' ?b = Inr (opts, d)
           \<and> (\<forall>m. errorMessage opts = Some m \<longrightarrow>
                  calls d = [Cb (Some (Error (JStr m))) JUndefined JUndefined]
                \<and> raised d = None \<and> effects d = [] \<and> quiet d)"
    by blast
qed

theorem sink_argument_shape_errors_witness:
  "typeof (JStr ''not a function'') \<noteq> ''function''
   \<and> toFile sample_env (JStr ''out.jpg'') (JStr ''not a function'') (new_options ''key'')
       = Inl (Error (JStr msg_file_cb))
   \<and> toBuffer sample_env (JStr ''not a function'') (new_options ''key'')
       = Inl (Error (JStr msg_buffer_cb))
   \<and> typeof (JFun 0) = ''function'' \<and> typeof (JNum 5) \<noteq> ''string'' \<and> \<not> instanceof_Stream (JNum 5)
   \<and> \<not> isl (toFile sample_env (JNum 5) (JFun 0) (new_options ''key''))
   \<and> typeof (sink_callback (ToFile (JStr ''out.jpg'') (JFun 1))) = ''function''
   \<and> errorMessage (fst (projr (run_sink sample_env (ToFile (JStr ''out.jpg'') (JFun 1)) json_job)))
       = Some msg_one_response
   \<and> msg_one_response \<noteq> []
   \<and> calls (snd (projr (run_sink sample_env (ToFile (JStr ''out.jpg'') (JFun 1)) json_job)))
       = [Cb (Some (Error (JStr msg_one_response))) JUndefined JUndefined]
   \<and> raised (snd (projr (run_sink sample_env (ToFile (JStr ''out.jpg'') (JFun 1)) json_job))) = None
   \<and> typeof (sink_callback (ToJSON (JFun 0))) = ''function''
   \<and> errorMessage (fst (projr (run_sink sample_env (ToJSON (JFun 0))
         (chain [Fetch JUndefined] (new_options ''key''))))) = Some msg_fetch_arg
   \<and> calls (snd (projr (run_sink sample_env (ToJSON (JFun 0))
         (chain [Fetch JUndefined] (new_options ''key'')))))
       = [Cb (Some (Error (JStr msg_fetch_arg))) JUndefined JUndefined]"
  using sink_argument_shape_errors [where cb = "JStr ''not a function''" and env = sample_env
      and f = "JStr ''out.jpg''" and b = "new_options ''key''" and cb' = "JFun 0" and f' = "JNum 5"
      and t = "ToFile (JStr ''out.jpg'') (JFun 1)" and b' = json_job
      and t' = "ToJSON (JFun 0)" and cs = "[Fetch JUndefined]" and k = "''key''"]
  by (auto simp: json_job_eq builder_defs sendRequest_def msgs_nonempty)

text \<open>
  C8 as stated fails for the destination: \<^verbatim>\<open>fetch(url).toFile(5, fn)\<close> raises nothing, and
  the error about the first parameter arrives through the callback.
\<close>

theorem toFile_destination_counterexample:
  "\<not> isl (toFile sample_env (JNum 5) (JFun 0) (chain [Fetch (JStr ''https://x/in.jpg'')] (new_options ''key'')))
   \<and> calls (snd (projr (toFile sample_env (JNum 5) (JFun 0)
        (chain [Fetch (JStr ''https://x/in.jpg'')] (new_options ''key'')))))
      = [Cb (Some (Error (JStr ''Optidash toFile(string|stream, fn) method requires a file path or a stream as a first parameter'')))
           JUndefined JUndefined]
   \<and> raised (snd (projr (toFile sample_env (JNum 5) (JFun 0)
        (chain [Fetch (JStr ''https://x/in.jpg'')] (new_options ''key''))))) = None"
  by (simp add: builder_defs sendRequest_def msg_defs call_function_def)

section \<open>The claim about the operation setters\<close>

text \<open>
  C10. Each of the sixteen operation setters (optimize, flip, resize, scale, crop, watermark,
  mask, filter, adjust, auto, border, padding, store, output, webhook, cdn) tests only
  \<^verbatim>\<open>typeof data === "object"\<close>. Called with \<^verbatim>\<open>null\<close> it stores \<^verbatim>\<open>null\<close> under its
  operation key, as it stores every value whose type is "object"; called with a string, a
  number or any other value whose type is not "object" it returns the builder unchanged.
\<close>

theorem setters_guard_on_typeof_object:
  "(name, f) \<in> set setters \<Longrightarrow>
     f JNull b = b\<lparr>request := set_prop name JNull (request b)\<rparr>
   \<and> map_of (request (f JNull b)) name = Some JNull
   \<and> (typeof d = ''object'' \<longrightarrow> f d b = b\<lparr>request := set_prop name d (request b)\<rparr>)
   \<and> f (JStr str) b = b \<and> f (JNum n) b = b
   \<and> (typeof d' \<noteq> ''object'' \<longrightarrow> f d' b = b)"
  by (simp add: setters_body map_of_set_prop)

theorem setters_guard_on_typeof_object_witness:
  "(''store'', store) \<in> set setters
   \<and> map_of (request (store JNull (new_options ''key''))) ''store'' = Some JNull
   \<and> typeof (JObj [(''provider'', JStr ''s3'')]) = ''object''
   \<and> request (store (JObj [(''provider'', JStr ''s3'')]) (new_options ''key''))
       = [(''store'', JObj [(''provider'', JStr ''s3'')])]
   \<and> typeof (JBool True) \<noteq> ''object''
   \<and> store (JBool True) (new_options ''key'') = new_options ''key''"
  using setters_guard_on_typeof_object
    [of "''store''" store "new_options ''key''" "JObj [(''provider'', JStr ''s3'')]" "''a''" 1
        "JBool True"]
  by (simp add: setters_def new_options_def)

end
